theory Spec2Isabelle
  imports Complex_Main "HOL-Library.Word"
begin

section \<open>The AI service of the Telegram bot\<close>

text \<open>
  The module \<^verbatim>\<open>ai-service\<close> (the second part of \<^verbatim>\<open>src/index.ts\<close>, whose line numbers
  are used throughout) keeps a per-user conversation history, sends the conversation
  to the Hugging Face router through a matrix of models and endpoints, and classifies
  the outcome. This theory embeds \<^verbatim>\<open>getAIResponse\<close>, \<^verbatim>\<open>callHuggingFace\<close>,
  \<^verbatim>\<open>buildPrompt\<close> and \<^verbatim>\<open>extractGeneratedText\<close>. The network is a parameter of the
  model; every request that the code passes to \<^verbatim>\<open>fetch\<close> is recorded in order.
\<close>

subsection \<open>JavaScript strings\<close>

text \<open>
  A JavaScript string is a sequence of UTF-16 code units; \<^verbatim>\<open>substring\<close> and
  \<^verbatim>\<open>trim\<close> work on code units.
\<close>

type_synonym jstring = "16 word list"

definition of_ascii :: "string \<Rightarrow> jstring" where
  "of_ascii s = map of_char s"

text \<open>
  \<^verbatim>\<open>String.prototype.trim\<close> strips the code points of WhiteSpace and LineTerminator
  (ECMA-262): TAB, LF, VT, FF, CR, SP, NBSP, U+1680, U+2000 to U+200A, U+2028, U+2029,
  U+202F, U+205F, U+3000 and U+FEFF. All of them are single code units.
\<close>

definition is_ws :: "16 word \<Rightarrow> bool" where
  "is_ws c \<longleftrightarrow>
     c \<in> {0x9, 0xA, 0xB, 0xC, 0xD, 0x20, 0xA0, 0x1680, 0x2028, 0x2029, 0x202F, 0x205F,
          0x3000, 0xFEFF}
     \<or> (0x2000 \<le> c \<and> c \<le> 0x200A)"

definition trim :: "jstring \<Rightarrow> jstring" where
  "trim s = rev (dropWhile is_ws (rev (dropWhile is_ws s)))"

text \<open>\<^verbatim>\<open>s.substring(0, n)\<close>.\<close>

definition substring0 :: "jstring \<Rightarrow> nat \<Rightarrow> jstring" where
  "substring0 s n = take n s"

text \<open>A non-negative integer in a template literal: its decimal digits.\<close>

fun show_nat :: "nat \<Rightarrow> jstring" where
  "show_nat n =
     (if n < 10 then [of_nat (48 + n)]
      else show_nat (n div 10) @ [of_nat (48 + n mod 10)])"

subsection \<open>The messages of the module\<close>

text \<open>The Russian texts are given by their code units; the comment shows the text's meaning.\<close>

definition msg_unexpected :: jstring where
  \<comment> \<open>line 282, "unexpected error"\<close>
  "msg_unexpected =
     [0x41D, 0x435, 0x43F, 0x440, 0x435, 0x434, 0x432, 0x438, 0x434, 0x435, 0x43D, 0x43D,
      0x430, 0x44F, 0x20, 0x43E, 0x448, 0x438, 0x431, 0x43A, 0x430]"

definition msg_key_missing :: jstring where
  \<comment> \<open>line 299, "HF_API_KEY is missing"\<close>
  "msg_key_missing =
     [0x48, 0x46, 0x5F, 0x41, 0x50, 0x49, 0x5F, 0x4B, 0x45, 0x59, 0x20, 0x43E, 0x442, 0x441,
      0x443, 0x442, 0x441, 0x442, 0x432, 0x443, 0x435, 0x442]"

definition msg_connect_failed :: jstring where
  \<comment> \<open>line 475, "could not connect to the API"\<close>
  "msg_connect_failed =
     [0x41D, 0x435, 0x20, 0x443, 0x434, 0x430, 0x43B, 0x43E, 0x441, 0x44C, 0x20, 0x43F,
      0x43E, 0x434, 0x43A, 0x43B, 0x44E, 0x447, 0x438, 0x442, 0x44C, 0x441, 0x44F, 0x20,
      0x43A, 0x20, 0x41, 0x50, 0x49]"

definition msg_warming :: jstring where
  \<comment> \<open>line 489, "the model is warming up, try a little later"\<close>
  "msg_warming =
     [0x41C, 0x43E, 0x434, 0x435, 0x43B, 0x44C, 0x20, 0x43F, 0x440, 0x43E, 0x433, 0x440,
      0x435, 0x432, 0x430, 0x435, 0x442, 0x441, 0x44F, 0x2E, 0x20, 0x41F, 0x43E, 0x43F,
      0x440, 0x43E, 0x431, 0x443, 0x439, 0x442, 0x435, 0x20, 0x447, 0x443, 0x442, 0x44C,
      0x20, 0x43F, 0x43E, 0x437, 0x436, 0x435, 0x2E]"

definition msg_api_error_prefix :: jstring where
  \<comment> \<open>line 509, "Hugging Face API error (", before the status\<close>
  "msg_api_error_prefix =
     [0x41E, 0x448, 0x438, 0x431, 0x43A, 0x430, 0x20, 0x48, 0x75, 0x67, 0x67, 0x69, 0x6E,
      0x67, 0x20, 0x46, 0x61, 0x63, 0x65, 0x20, 0x41, 0x50, 0x49, 0x20, 0x28]"

definition msg_parse_failed :: jstring where
  \<comment> \<open>line 539, "could not parse the API response"\<close>
  "msg_parse_failed =
     [0x41D, 0x435, 0x20, 0x443, 0x434, 0x430, 0x43B, 0x43E, 0x441, 0x44C, 0x20, 0x440,
      0x430, 0x441, 0x43F, 0x430, 0x440, 0x441, 0x438, 0x442, 0x44C, 0x20, 0x43E, 0x442,
      0x432, 0x435, 0x442, 0x20, 0x41, 0x50, 0x49]"

definition msg_empty_response :: jstring where
  \<comment> \<open>line 553, "empty response from Hugging Face"\<close>
  "msg_empty_response =
     [0x41F, 0x443, 0x441, 0x442, 0x43E, 0x439, 0x20, 0x43E, 0x442, 0x432, 0x435, 0x442,
      0x20, 0x43E, 0x442, 0x20, 0x48, 0x75, 0x67, 0x67, 0x69, 0x6E, 0x67, 0x20, 0x46, 0x61,
      0x63, 0x65]"

definition msg_unknown_hf :: jstring where
  \<comment> \<open>line 568, "unknown Hugging Face error"\<close>
  "msg_unknown_hf =
     [0x41D, 0x435, 0x438, 0x437, 0x432, 0x435, 0x441, 0x442, 0x43D, 0x430, 0x44F, 0x20,
      0x43E, 0x448, 0x438, 0x431, 0x43A, 0x430, 0x20, 0x48, 0x75, 0x67, 0x67, 0x69, 0x6E,
      0x67, 0x20, 0x46, 0x61, 0x63, 0x65]"

text \<open>
  The messages of the TypeErrors that the engine raises (the texts are V8's): reading a
  property of \<^verbatim>\<open>null\<close>, and calling \<^verbatim>\<open>generatedText?.substring\<close> on a value that has no
  such method.
\<close>

definition type_error_null :: "string \<Rightarrow> jstring" where
  "type_error_null k =
     of_ascii (''Cannot read properties of null (reading '' @ [CHR 0x27] @ k @ [CHR 0x27] @ '')'')"

definition type_error_substring :: jstring where
  "type_error_substring = of_ascii ''generatedText?.substring is not a function''"

subsection \<open>JSON values\<close>

text \<open>
  What \<^verbatim>\<open>JSON.parse\<close> yields. A number is kept as its value: the code only tests
  numbers for truthiness. An object is an association list read with \<open>map_of\<close>.
  A JavaScript value that may be \<^verbatim>\<open>undefined\<close> is a \<open>json option\<close>, \<open>None\<close> being
  \<^verbatim>\<open>undefined\<close>.
\<close>

datatype json =
    JNull
  | JBool bool
  | JNum real
  | JStr jstring
  | JArr "json list"
  | JObj "(jstring \<times> json) list"

text \<open>Truthiness: \<^verbatim>\<open>null\<close>, \<^verbatim>\<open>false\<close>, \<^verbatim>\<open>0\<close> and \<^verbatim>\<open>""\<close> are falsy, as is \<^verbatim>\<open>undefined\<close>.\<close>

fun truthy :: "json \<Rightarrow> bool" where
  "truthy JNull = False"
| "truthy (JBool b) = b"
| "truthy (JNum x) = (x \<noteq> 0)"
| "truthy (JStr s) = (s \<noteq> [])"
| "truthy (JArr xs) = True"
| "truthy (JObj kvs) = True"

definition truthy_opt :: "json option \<Rightarrow> bool" where
  "truthy_opt v = (case v of None \<Rightarrow> False | Some j \<Rightarrow> truthy j)"

text \<open>
  \<^verbatim>\<open>v.k\<close> for a value \<open>v\<close> that is neither \<^verbatim>\<open>null\<close> nor \<^verbatim>\<open>undefined\<close>, and a name
  \<open>k\<close> that is no built-in property of strings, numbers, booleans or arrays (the code
  reads \<^verbatim>\<open>choices\<close>, \<^verbatim>\<open>message\<close>, \<^verbatim>\<open>content\<close>, \<^verbatim>\<open>text\<close>, \<^verbatim>\<open>generated_text\<close>,
  \<^verbatim>\<open>output_text\<close>, \<^verbatim>\<open>error\<close> and \<^verbatim>\<open>code\<close>): the member of an object, \<^verbatim>\<open>undefined\<close>
  on anything else.
\<close>

fun field :: "json \<Rightarrow> string \<Rightarrow> json option" where
  "field (JObj kvs) k = map_of kvs (of_ascii k)"
| "field v k = None"

text \<open>\<^verbatim>\<open>v?.k\<close>: \<^verbatim>\<open>undefined\<close> when \<open>v\<close> is \<^verbatim>\<open>null\<close> or \<^verbatim>\<open>undefined\<close>.\<close>

fun opt_field :: "json option \<Rightarrow> string \<Rightarrow> json option" where
  "opt_field None k = None"
| "opt_field (Some JNull) k = None"
| "opt_field (Some v) k = field v k"

text \<open>\<^verbatim>\<open>a || b\<close> and \<^verbatim>\<open>a ?? b\<close> on values.\<close>

definition js_or :: "json option \<Rightarrow> json option \<Rightarrow> json option" where
  "js_or a b = (if truthy_opt a then a else b)"

fun nullish :: "json option \<Rightarrow> json option \<Rightarrow> json option" where
  "nullish None b = b"
| "nullish (Some JNull) b = b"
| "nullish (Some v) b = Some v"

subsection \<open>extractGeneratedText (lines 588 to 645)\<close>

text \<open>
  The function returns \<^verbatim>\<open>null\<close> (\<open>Inr None\<close>), returns a value (\<open>Inr (Some v)\<close>; the
  declared type is \<^verbatim>\<open>string | null\<close>, but \<open>data\<close> is read as \<^verbatim>\<open>any\<close> and the value is
  whatever the field holds), or throws a TypeError (\<open>Inl\<close> its message).
\<close>

text \<open>
  Lines 598 to 606: \<^verbatim>\<open>obj.choices && Array.isArray(obj.choices) && obj.choices.length > 0\<close>,
  then the first choice only. \<^verbatim>\<open>choice.message\<close> throws when the choice is \<^verbatim>\<open>null\<close>.
\<close>

definition from_choices :: "json \<Rightarrow> jstring + json option" where
  "from_choices obj =
     (case field obj ''choices'' of
        Some (JArr (choice # rest)) \<Rightarrow>
          (if choice = JNull then Inl (type_error_null ''message'')
           else
             let message = field choice ''message'';
                 content = (case message of None \<Rightarrow> None | Some m \<Rightarrow> field m ''content'')
             in if truthy_opt message \<and> truthy_opt content then Inr content
                else if truthy_opt (field choice ''text'') then Inr (field choice ''text'')
                else Inr None)
      | _ \<Rightarrow> Inr None)"

text \<open>Lines 609 to 617: the fields of the old Hugging Face format.\<close>

definition from_legacy :: "json \<Rightarrow> json option" where
  "from_legacy obj =
     (if truthy_opt (field obj ''generated_text'') then field obj ''generated_text''
      else if truthy_opt (field obj ''output_text'') then field obj ''output_text''
      else if truthy_opt (field obj ''text'') then field obj ''text''
      else None)"

definition is_object :: "json \<Rightarrow> bool" where
  \<comment> \<open>\<^verbatim>\<open>typeof v === "object" && v !== null\<close>: objects and arrays\<close>
  "is_object v = (case v of JObj kvs \<Rightarrow> True | JArr xs \<Rightarrow> True | _ \<Rightarrow> False)"

text \<open>Lines 621 to 644: an array of answers, or a bare string.\<close>

definition from_array_or_string :: "json \<Rightarrow> json option" where
  "from_array_or_string data =
     (case data of
        JArr xs \<Rightarrow>
          (case xs of
             [] \<Rightarrow> None
           | first # rest \<Rightarrow>
               if \<not> truthy first then None
               else (case first of
                   JStr s \<Rightarrow> Some (JStr s)
                 | _ \<Rightarrow>
                     if is_object first then
                       (case nullish (field first ''generated_text'')
                              (nullish (field first ''output_text'')
                                (nullish (field first ''text'') (field first ''content''))) of
                          Some (JStr c) \<Rightarrow> Some (JStr c)
                        | _ \<Rightarrow> None)
                     else None))
      | JStr s \<Rightarrow> Some (JStr s)
      | _ \<Rightarrow> None)"

definition extractGeneratedText :: "json \<Rightarrow> jstring + json option" where
  "extractGeneratedText data =
     (if \<not> truthy data then Inr None
      else if is_object data then
        (case from_choices data of
           Inl e \<Rightarrow> Inl e
         | Inr (Some v) \<Rightarrow> Inr (Some v)
         | Inr None \<Rightarrow>
             (case from_legacy data of
                Some v \<Rightarrow> Inr (Some v)
              | None \<Rightarrow> Inr (from_array_or_string data)))
      else Inr (from_array_or_string data))"

subsection \<open>Messages, requests and the network\<close>

datatype role = System | User | Assistant

record ChatMessage =
  role :: role
  content :: jstring

text \<open>buildPrompt (lines 574 to 586): one line per message, then the line "Assistant:".\<close>

definition roleLabels :: "role \<Rightarrow> jstring" where
  "roleLabels r =
     (case r of System \<Rightarrow> of_ascii ''System'' | User \<Rightarrow> of_ascii ''User''
      | Assistant \<Rightarrow> of_ascii ''Assistant'')"

fun join :: "jstring \<Rightarrow> jstring list \<Rightarrow> jstring" where
  "join sep [] = []"
| "join sep [x] = x"
| "join sep (x # y # ys) = x @ sep @ join sep (y # ys)"

definition buildPrompt :: "ChatMessage list \<Rightarrow> jstring" where
  "buildPrompt messages =
     join [0xA] (map (\<lambda>m. roleLabels (role m) @ of_ascii '': '' @ content m) messages)
     @ [0xA] @ of_ascii ''Assistant:''"

text \<open>
  The three endpoints of lines 326 to 369. A request body is one of three shapes; the
  generation parameters are the same constants in every request (\<^verbatim>\<open>max_tokens: 200\<close>,
  \<^verbatim>\<open>temperature: 0.8\<close> for the first; \<^verbatim>\<open>max_new_tokens: 200\<close>, \<^verbatim>\<open>temperature: 0.8\<close>,
  \<^verbatim>\<open>top_p: 0.9\<close>, \<^verbatim>\<open>repetition_penalty: 1.1\<close>, \<^verbatim>\<open>return_full_text: false\<close> for the
  other two) and are not carried in the model.
\<close>

datatype endpoint = Router_v1 | Router_v2 | Router_v3

datatype body =
    ChatBody jstring "ChatMessage list"  \<comment> \<open>\<^verbatim>\<open>model\<close>, \<^verbatim>\<open>messages\<close>\<close>
  | InferenceBody jstring jstring  \<comment> \<open>\<^verbatim>\<open>model\<close>, \<^verbatim>\<open>inputs\<close>\<close>
  | InputsBody jstring  \<comment> \<open>\<^verbatim>\<open>inputs\<close>\<close>

definition endpoints :: "endpoint list" where
  "endpoints = [Router_v1, Router_v2, Router_v3]"

definition endpoint_url :: "endpoint \<Rightarrow> jstring \<Rightarrow> jstring" where
  "endpoint_url ep model =
     (case ep of
        Router_v1 \<Rightarrow> of_ascii ''https://router.huggingface.co/v1/chat/completions''
      | Router_v2 \<Rightarrow> of_ascii ''https://router.huggingface.co/hf-inference''
      | Router_v3 \<Rightarrow> of_ascii ''https://router.huggingface.co/models/'' @ model)"

definition endpoint_body :: "endpoint \<Rightarrow> ChatMessage list \<Rightarrow> jstring \<Rightarrow> body" where
  "endpoint_body ep messages model =
     (case ep of
        Router_v1 \<Rightarrow>
          ChatBody model
            (map (\<lambda>m. \<lparr>role = (if role m = Assistant then Assistant else User),
                       content = content m\<rparr>) messages)
      | Router_v2 \<Rightarrow> InferenceBody model (buildPrompt messages)
      | Router_v3 \<Rightarrow> InputsBody (buildPrompt messages))"

record request =
  url :: jstring
  authorization :: jstring
  body :: body

text \<open>
  What \<^verbatim>\<open>fetch\<close> gives: a rejection (an Error with a message), or a response.
  \<open>body_text\<close> is what \<^verbatim>\<open>response.text()\<close> reads and \<open>body_json\<close> what
  \<^verbatim>\<open>JSON.parse\<close> makes of that text, \<open>None\<close> when it throws; \<^verbatim>\<open>response.json()\<close>
  parses the same text.
\<close>

record response =
  status :: nat
  statusText :: jstring
  body_text :: jstring
  body_json :: "json option"

datatype outcome = NetworkError jstring | Http response

text \<open>
  The network answers the \<open>k\<close>-th request of a call (counted from 0) as a function of
  \<open>k\<close> and of the request.
\<close>

type_synonym network = "nat \<Rightarrow> request \<Rightarrow> outcome"

definition ok :: "response \<Rightarrow> bool" where
  \<comment> \<open>\<^verbatim>\<open>response.ok\<close>\<close>
  "ok r \<longleftrightarrow> 200 \<le> status r \<and> status r \<le> 299"

subsection \<open>Configuration and results\<close>

text \<open>
  \<open>HF_API_KEY\<close> and \<open>HF_MODEL\<close> are read from the environment (\<open>HF_MODEL\<close> after its
  default is applied). \<^verbatim>\<open>getSystemPrompt\<close> comes from the character module: it
  returns the prompt, or throws (\<open>None\<close>).
\<close>

record config =
  HF_API_KEY :: "jstring option"
  HF_MODEL :: jstring
  getSystemPrompt :: "jstring option"

definition MAX_HISTORY :: nat where
  "MAX_HISTORY = 10"

datatype errorType = insufficient_balance | api_error | unknown | provider_unavailable

text \<open>
  \<open>error\<close> is typed \<^verbatim>\<open>string\<close> in the source, but line 505 can store any value of the
  error payload in it.
\<close>

record AIResponseResult =
  success :: bool
  message :: "jstring option"
  error :: "json option"
  errorType :: "errorType option"

definition succeeded :: "jstring \<Rightarrow> AIResponseResult" where
  "succeeded m = \<lparr>success = True, message = Some m, error = None, errorType = None\<rparr>"

definition failed :: "json option \<Rightarrow> errorType \<Rightarrow> AIResponseResult" where
  "failed e t = \<lparr>success = False, message = None, error = e, errorType = Some t\<rparr>"

subsection \<open>The traversal of models and endpoints (lines 371 to 470)\<close>

text \<open>
  The variables of \<^verbatim>\<open>callHuggingFace\<close> that the loops update, and the requests passed
  to \<^verbatim>\<open>fetch\<close> so far. \<open>lastError\<close> holds the message of the Error. The variables
  \<^verbatim>\<open>successfulModel\<close> and \<^verbatim>\<open>found\<close> are written and never read, and are left out.
\<close>

record loop_state =
  lastError :: "jstring option"
  response :: "response option"
  lastResponseText :: jstring
  requests :: "request list"

definition init_state :: loop_state where
  "init_state = \<lparr>lastError = None, response = None, lastResponseText = [], requests = []\<rparr>"

text \<open>How one pass through the body of the inner loop ends.\<close>

datatype flow =
    Continue  \<comment> \<open>the next endpoint of this model\<close>
  | Break  \<comment> \<open>\<^verbatim>\<open>break\<close>: the next model\<close>
  | BreakOuter  \<comment> \<open>\<^verbatim>\<open>break outerLoop\<close>\<close>

definition model_not_supported :: "response \<Rightarrow> bool" where
  \<comment> \<open>lines 446 to 456; when \<^verbatim>\<open>JSON.parse\<close> throws the catch ignores it\<close>
  "model_not_supported r \<longleftrightarrow>
     opt_field (opt_field (body_json r) ''error'') ''code''
       = Some (JStr (of_ascii ''model_not_supported''))"

text \<open>
  The request of lines 391 to 398: the method \<^verbatim>\<open>POST\<close> and the content type are the
  same in every request and are not carried.
\<close>

definition make_request ::
  "jstring \<Rightarrow> ChatMessage list \<Rightarrow> jstring \<Rightarrow> endpoint \<Rightarrow> request" where
  "make_request key messages model ep =
     \<lparr>url = endpoint_url ep model,
      authorization = of_ascii ''Bearer '' @ key,
      body = endpoint_body ep messages model\<rparr>"

definition attempt ::
  "jstring \<Rightarrow> ChatMessage list \<Rightarrow> network \<Rightarrow> jstring \<Rightarrow> endpoint \<Rightarrow> loop_state
     \<Rightarrow> flow \<times> loop_state" where
  "attempt key messages net model ep st =
     (let req = make_request key messages model ep;
          st1 = st\<lparr>requests := requests st @ [req]\<rparr>
      in case net (length (requests st)) req of
           NetworkError msg \<Rightarrow> (Continue, st1\<lparr>lastError := Some msg\<rparr>)
         | Http r \<Rightarrow>
             let st2 = st1\<lparr>response := Some r, lastResponseText := body_text r\<rparr>
             in if ok r then (BreakOuter, st2)
                else if status r = 503 then (Continue, st2)
                else if status r = 410 then (Continue, st2)
                else if status r = 404 then
                  (Continue,
                   st2\<lparr>lastError :=
                     Some (of_ascii ''404 Not Found: '' @ substring0 (body_text r) 200)\<rparr>)
                else if status r = 400 \<and> model_not_supported r then (Break, st2)
                else
                  (Continue,
                   st2\<lparr>lastError :=
                     Some (of_ascii ''Status '' @ show_nat (status r) @ of_ascii '': ''
                           @ statusText r @ of_ascii '' - ''
                           @ substring0 (body_text r) 200)\<rparr>))"

text \<open>The inner loop over the endpoints; the flag says that \<^verbatim>\<open>break outerLoop\<close> ran.\<close>

fun endpoint_loop ::
  "jstring \<Rightarrow> ChatMessage list \<Rightarrow> network \<Rightarrow> jstring \<Rightarrow> endpoint list \<Rightarrow> loop_state
     \<Rightarrow> bool \<times> loop_state" where
  "endpoint_loop key messages net model [] st = (False, st)"
| "endpoint_loop key messages net model (ep # eps) st =
     (case attempt key messages net model ep st of
        (Continue, st') \<Rightarrow> endpoint_loop key messages net model eps st'
      | (Break, st') \<Rightarrow> (False, st')
      | (BreakOuter, st') \<Rightarrow> (True, st'))"

fun model_loop ::
  "jstring \<Rightarrow> ChatMessage list \<Rightarrow> network \<Rightarrow> jstring list \<Rightarrow> loop_state \<Rightarrow> loop_state" where
  "model_loop key messages net [] st = st"
| "model_loop key messages net (model # models) st =
     (case endpoint_loop key messages net model endpoints st of
        (True, st') \<Rightarrow> st'
      | (False, st') \<Rightarrow> model_loop key messages net models st')"

definition modelsToTry :: "config \<Rightarrow> jstring list" where
  "modelsToTry cfg =
     [HF_MODEL cfg,
      of_ascii ''meta-llama/Meta-Llama-3-8B-Instruct'',
      of_ascii ''mistralai/Mistral-7B-Instruct-v0.2'',
      of_ascii ''Qwen/Qwen2.5-7B-Instruct'',
      of_ascii ''google/gemma-7b-it'',
      of_ascii ''HuggingFaceH4/zephyr-7b-beta'']"

subsection \<open>callHuggingFace after the loops (lines 472 to 563)\<close>

text \<open>
  Line 504: \<^verbatim>\<open>errorData?.error || errorData?.message || errorData?.error?.message ||
  lastResponseText || `... (${status} ${statusText})`\<close>, where \<open>errorData\<close> is the parsed
  body, or \<^verbatim>\<open>null\<close> when parsing throws.
\<close>

definition generic_error :: "response \<Rightarrow> jstring" where
  "generic_error r =
     msg_api_error_prefix @ show_nat (status r) @ of_ascii '' '' @ statusText r @ of_ascii '')''"

definition errorMessage :: "response \<Rightarrow> jstring \<Rightarrow> json option" where
  "errorMessage r lastText =
     (let errorData = body_json r
      in js_or (opt_field errorData ''error'')
           (js_or (opt_field errorData ''message'')
             (js_or (opt_field (opt_field errorData ''error'') ''message'')
               (js_or (Some (JStr lastText)) (Some (JStr (generic_error r)))))))"

text \<open>
  Lines 544 to 563, on the parsed body of a 2xx response. Line 545 calls
  \<^verbatim>\<open>generatedText?.substring(0, 100)\<close>, which throws on a value that is not a string.
  \<open>Inl\<close> is the message of a thrown Error.
\<close>

definition from_data :: "json \<Rightarrow> jstring + AIResponseResult" where
  "from_data data =
     (case extractGeneratedText data of
        Inl e \<Rightarrow> Inl e
      | Inr None \<Rightarrow> Inr (failed (Some (JStr msg_empty_response)) api_error)
      | Inr (Some (JStr generatedText)) \<Rightarrow>
          if generatedText = [] then Inr (failed (Some (JStr msg_empty_response)) api_error)
          else Inr (succeeded (trim generatedText))
      | Inr (Some v) \<Rightarrow> Inl type_error_substring)"

text \<open>Lines 472 to 563: the body of the try block after the loops.\<close>

definition after_loops :: "loop_state \<Rightarrow> jstring + AIResponseResult" where
  "after_loops st =
     (case response st of
        None \<Rightarrow> Inl (case lastError st of Some e \<Rightarrow> e | None \<Rightarrow> msg_connect_failed)
      | Some r \<Rightarrow>
          if status r = 503 then Inr (failed (Some (JStr msg_warming)) provider_unavailable)
          else if \<not> ok r then Inr (failed (errorMessage r (lastResponseText st)) api_error)
          else (case body_json r of
                  None \<Rightarrow> Inr (failed (Some (JStr msg_parse_failed)) api_error)
                | Some data \<Rightarrow> from_data data))"

definition has_key :: "config \<Rightarrow> bool" where
  \<comment> \<open>\<^verbatim>\<open>HF_API_KEY\<close> is truthy: set and not the empty string\<close>
  "has_key cfg = (case HF_API_KEY cfg of None \<Rightarrow> False | Some k \<Rightarrow> k \<noteq> [])"

text \<open>
  callHuggingFace (lines 293 to 572) returns its result and the requests it issued. The
  catch of line 564 turns a thrown Error into an \<open>api_error\<close> with
  \<^verbatim>\<open>error.message || "..."\<close>.
\<close>

definition callHuggingFace ::
  "config \<Rightarrow> ChatMessage list \<Rightarrow> network \<Rightarrow> AIResponseResult \<times> request list" where
  "callHuggingFace cfg messages net =
     (case HF_API_KEY cfg of
        None \<Rightarrow> (failed (Some (JStr msg_key_missing)) provider_unavailable, [])
      | Some key \<Rightarrow>
          if key = [] then (failed (Some (JStr msg_key_missing)) provider_unavailable, [])
          else
            let st = model_loop key messages net (modelsToTry cfg) init_state
            in (case after_loops st of
                  Inl e \<Rightarrow> failed (Some (JStr (if e \<noteq> [] then e else msg_unknown_hf))) api_error
                | Inr res \<Rightarrow> res,
                requests st))"

subsection \<open>getAIResponse (lines 242 to 286)\<close>

text \<open>
  The conversation store (the map \<^verbatim>\<open>conversationHistory\<close> of line 222) maps a user
  to the stored turns. The function returns
  \<^verbatim>\<open>null\<close> (\<open>None\<close>) or a result, the store after the call, and the requests issued.
  The test of line 266, \<^verbatim>\<open>response.success && response.message\<close>, holds when the
  message is present and not the empty string.
\<close>

type_synonym store = "int \<rightharpoonup> ChatMessage list"

definition slice_last :: "nat \<Rightarrow> 'a list \<Rightarrow> 'a list" where
  \<comment> \<open>\<^verbatim>\<open>xs.slice(-n)\<close> for \<open>n > 0\<close>\<close>
  "slice_last n xs = drop (length xs - n) xs"

definition getAIResponse ::
  "config \<Rightarrow> store \<Rightarrow> int \<Rightarrow> jstring \<Rightarrow> network
     \<Rightarrow> AIResponseResult option \<times> store \<times> request list" where
  "getAIResponse cfg store userId userMessage net =
     (if \<not> has_key cfg then (None, store, [])
      else
        let history = (case store userId of None \<Rightarrow> [] | Some h \<Rightarrow> h)
        in case getSystemPrompt cfg of
             None \<Rightarrow> (Some (failed (Some (JStr msg_unexpected)) unknown), store, [])
           | Some prompt \<Rightarrow>
               let messages =
                     \<lparr>role = System, content = prompt\<rparr> # history
                     @ [\<lparr>role = User, content = userMessage\<rparr>];
                   (res, reqs) = callHuggingFace cfg messages net
               in (case message res of
                     None \<Rightarrow> (Some res, store, reqs)
                   | Some m \<Rightarrow>
                       if success res \<and> m \<noteq> [] then
                         let pushed =
                               history
                               @ [\<lparr>role = User, content = userMessage\<rparr>,
                                  \<lparr>role = Assistant, content = m\<rparr>];
                             kept = (if length pushed > MAX_HISTORY
                                     then slice_last MAX_HISTORY pushed else pushed)
                         in (Some res, store(userId \<mapsto> kept), reqs)
                       else (Some res, store, reqs)))"

text \<open>clearUserHistory (lines 289 to 291).\<close>

definition clearUserHistory :: "store \<Rightarrow> int \<Rightarrow> store" where
  "clearUserHistory store userId = store(userId := None)"

text \<open>
  A sequence of calls, one after the other, each with its user, its message and the
  network's behaviour during the call.
\<close>

fun run :: "config \<Rightarrow> store \<Rightarrow> (int \<times> jstring \<times> network) list \<Rightarrow> store" where
  "run cfg store [] = store"
| "run cfg store ((userId, userMessage, net) # calls) =
     run cfg (fst (snd (getAIResponse cfg store userId userMessage net))) calls"

subsection \<open>What a call shows from outside\<close>

text \<open>
  The answers that the network gave to the requests of a call, in order, and the most
  recent HTTP response among them.
\<close>

definition outcomes :: "network \<Rightarrow> request list \<Rightarrow> outcome list" where
  "outcomes net reqs = map (\<lambda>k. net k (reqs ! k)) [0..<length reqs]"

definition is_2xx :: "outcome \<Rightarrow> bool" where
  "is_2xx out = (case out of Http r \<Rightarrow> ok r | NetworkError e \<Rightarrow> False)"

fun first_http :: "outcome list \<Rightarrow> response option" where
  "first_http [] = None"
| "first_http (Http r # outs) = Some r"
| "first_http (NetworkError e # outs) = first_http outs"

definition last_http :: "outcome list \<Rightarrow> response option" where
  "last_http outs = first_http (rev outs)"

text \<open>
  The candidate matrix in model-major order: every endpoint of the first entry of the
  model list, then every endpoint of the second, and so on. A candidate carries the
  position of its model in the list.
\<close>

definition candidates :: "jstring list \<Rightarrow> (nat \<times> jstring \<times> endpoint) list" where
  "candidates models =
     concat (map (\<lambda>(i, model). map (\<lambda>ep. (i, model, ep)) endpoints) (enumerate 0 models))"

definition unsupported :: "outcome \<Rightarrow> bool" where
  \<comment> \<open>HTTP 400 whose payload has the error code \<^verbatim>\<open>model_not_supported\<close>\<close>
  "unsupported out =
     (case out of Http r \<Rightarrow> status r = 400 \<and> model_not_supported r | NetworkError e \<Rightarrow> False)"

text \<open>
  The traversal over the flat list of candidates, by entry of the model list: a 2xx
  answer stops it, an answer that reports the model unsupported drops the remaining
  candidates of the same entry (the same position in the model list), anything else
  goes on to the next candidate. It yields the requests issued after the first \<open>n\<close>.
\<close>

fun traverse ::
  "jstring \<Rightarrow> ChatMessage list \<Rightarrow> network \<Rightarrow> nat \<Rightarrow> (nat \<times> jstring \<times> endpoint) list
     \<Rightarrow> request list" where
  "traverse key messages net n [] = []"
| "traverse key messages net n ((i, model, ep) # cs) =
     (let req = make_request key messages model ep; out = net n req
      in if is_2xx out then [req]
         else if unsupported out then
           req # traverse key messages net (Suc n) (filter (\<lambda>c. fst c \<noteq> i) cs)
         else req # traverse key messages net (Suc n) cs)"

text \<open>
  The traversal as claim C7 words it: an answer that reports the model unsupported
  drops the remaining candidates of that model, whatever their entry.
\<close>

fun traverse_by_model ::
  "jstring \<Rightarrow> ChatMessage list \<Rightarrow> network \<Rightarrow> nat \<Rightarrow> (nat \<times> jstring \<times> endpoint) list
     \<Rightarrow> request list" where
  "traverse_by_model key messages net n [] = []"
| "traverse_by_model key messages net n ((i, model, ep) # cs) =
     (let req = make_request key messages model ep; out = net n req
      in if is_2xx out then [req]
         else if unsupported out then
           req # traverse_by_model key messages net (Suc n)
                   (filter (\<lambda>c. fst (snd c) \<noteq> model) cs)
         else req # traverse_by_model key messages net (Suc n) cs)"

text \<open>
  On a list of candidates in which entries and models correspond one to one, the two
  traversals skip the same candidates.
\<close>

definition entry_is_model :: "(nat \<times> jstring \<times> endpoint) list \<Rightarrow> bool" where
  \<comment> \<open>two candidates have the same entry exactly when they have the same model\<close>
  "entry_is_model cs \<longleftrightarrow>
     list_all (\<lambda>c. list_all (\<lambda>d. (fst c = fst d) = (fst (snd c) = fst (snd d))) cs) cs"

text \<open>
  What a request carries of the message list. On the chat-completions endpoint every
  role other than \<^verbatim>\<open>assistant\<close> is written \<^verbatim>\<open>user\<close>. On the other two endpoints the
  list is flattened to one line per message, the role's label, a colon and the content,
  followed by the line \<^verbatim>\<open>Assistant:\<close>.
\<close>

definition on_wire :: "ChatMessage \<Rightarrow> ChatMessage" where
  "on_wire t =
     (case role t of
        System \<Rightarrow> \<lparr>role = User, content = content t\<rparr>
      | User \<Rightarrow> \<lparr>role = User, content = content t\<rparr>
      | Assistant \<Rightarrow> \<lparr>role = Assistant, content = content t\<rparr>)"

definition prompt_line :: "ChatMessage \<Rightarrow> jstring" where
  "prompt_line t =
     (case role t of
        System \<Rightarrow> of_ascii ''System: ''
      | User \<Rightarrow> of_ascii ''User: ''
      | Assistant \<Rightarrow> of_ascii ''Assistant: '')
     @ content t @ [0xA]"

definition flat_prompt :: "ChatMessage list \<Rightarrow> jstring" where
  "flat_prompt messages = concat (map prompt_line messages) @ of_ascii ''Assistant:''"

text \<open>
  The error of an exhausted matrix as the specification words it: the error field of
  the last response body, then its message field, then the raw body text, then the
  generic text.
\<close>

definition error_by_priority :: "response \<Rightarrow> json option" where
  "error_by_priority r =
     js_or (opt_field (body_json r) ''error'')
       (js_or (opt_field (body_json r) ''message'')
         (js_or (Some (JStr (body_text r))) (Some (JStr (generic_error r)))))"

definition classify_exhausted :: "response \<Rightarrow> AIResponseResult" where
  "classify_exhausted r =
     (if status r = 503 then failed (Some (JStr msg_warming)) provider_unavailable
      else failed (error_by_priority r) api_error)"

text \<open>
  The turns that a sequence of calls pushes onto the history of user \<open>u\<close> (lines 267
  and 268), in the order of the pushes.
\<close>

fun pushed_turns ::
  "config \<Rightarrow> store \<Rightarrow> (int \<times> jstring \<times> network) list \<Rightarrow> int \<Rightarrow> ChatMessage list" where
  "pushed_turns cfg store [] u = []"
| "pushed_turns cfg store ((userId, userMessage, net) # calls) u =
     (case getAIResponse cfg store userId userMessage net of
        (res, store', reqs) \<Rightarrow>
          (case res of
             None \<Rightarrow> []
           | Some r \<Rightarrow>
               (case message r of
                  None \<Rightarrow> []
                | Some m \<Rightarrow>
                    if userId = u \<and> success r \<and> m \<noteq> [] then
                      [\<lparr>role = User, content = userMessage\<rparr>,
                       \<lparr>role = Assistant, content = m\<rparr>]
                    else []))
          @ pushed_turns cfg store' calls u)"

definition history_of :: "store \<Rightarrow> int \<Rightarrow> ChatMessage list" where
  \<comment> \<open>\<^verbatim>\<open>conversationHistory.get(userId) || []\<close>\<close>
  "history_of store u = (case store u of None \<Rightarrow> [] | Some h \<Rightarrow> h)"

text \<open>
  What the loops maintain: \<open>response\<close> is the most recent HTTP response,
  \<open>lastResponseText\<close> is its text, and as long as there is no response \<open>lastError\<close>
  is the Error of the last request.
\<close>

definition loop_inv :: "network \<Rightarrow> loop_state \<Rightarrow> bool" where
  "loop_inv net st \<longleftrightarrow>
     response st = last_http (outcomes net (requests st))
     \<and> lastResponseText st = (case response st of None \<Rightarrow> [] | Some r \<Rightarrow> body_text r)
     \<and> (response st = None \<longrightarrow>
          (case rev (outcomes net (requests st)) of
             [] \<Rightarrow> lastError st = None
           | out # outs \<Rightarrow>
               out = NetworkError (case lastError st of None \<Rightarrow> [] | Some e \<Rightarrow> e)
               \<and> lastError st \<noteq> None))"

subsection \<open>Extraction as an ordered list of candidates\<close>

text \<open>
  The shapes that extraction accepts, as an ordered list of candidates of which the
  first one that counts wins. Only the first choice and the first array element are looked
  at. A candidate of the choices shape or of the single-object shape counts when it is
  a non-empty string. For an array whose first element is an object, the candidate is
  the first field among \<^verbatim>\<open>generated_text\<close>, \<^verbatim>\<open>output_text\<close>, \<^verbatim>\<open>text\<close> and
  \<^verbatim>\<open>content\<close> that is neither absent nor \<^verbatim>\<open>null\<close>, and it counts when it is a string,
  empty or not.
\<close>

definition nonempty_string :: "json option \<Rightarrow> jstring option" where
  "nonempty_string v =
     (case v of Some (JStr s) \<Rightarrow> if s \<noteq> [] then Some s else None | _ \<Rightarrow> None)"

definition first_choice :: "json \<Rightarrow> json option" where
  "first_choice data =
     (case field data ''choices'' of Some (JArr (choice # rest)) \<Rightarrow> Some choice | _ \<Rightarrow> None)"

definition first_element :: "json \<Rightarrow> json option" where
  "first_element data = (case data of JArr (first # rest) \<Rightarrow> Some first | _ \<Rightarrow> None)"

fun first_some :: "'a option list \<Rightarrow> 'a option" where
  "first_some [] = None"
| "first_some (None # xs) = first_some xs"
| "first_some (Some x # xs) = Some x"

definition element_candidate :: "json \<Rightarrow> jstring option" where
  "element_candidate data =
     (case first_element data of
        Some (JStr s) \<Rightarrow> nonempty_string (Some (JStr s))
      | Some (JObj kvs) \<Rightarrow>
          (case nullish (map_of kvs (of_ascii ''generated_text''))
                 (nullish (map_of kvs (of_ascii ''output_text''))
                   (nullish (map_of kvs (of_ascii ''text''))
                     (map_of kvs (of_ascii ''content'')))) of
             Some (JStr c) \<Rightarrow> Some c
           | _ \<Rightarrow> None)
      | _ \<Rightarrow> None)"

definition extract_in_order :: "json \<Rightarrow> jstring option" where
  "extract_in_order data =
     first_some
       [nonempty_string (opt_field (opt_field (first_choice data) ''message'') ''content''),
        nonempty_string (opt_field (first_choice data) ''text''),
        nonempty_string (field data ''generated_text''),
        nonempty_string (field data ''output_text''),
        nonempty_string (field data ''text''),
        element_candidate data,
        (case data of JStr s \<Rightarrow> nonempty_string (Some data) | _ \<Rightarrow> None)]"

text \<open>
  A body is string-valued when its first choice is not \<^verbatim>\<open>null\<close> and each candidate
  of the choices shape and of the single-object shape is a string or is falsy (absent,
  \<^verbatim>\<open>null\<close>, \<^verbatim>\<open>false\<close> or \<^verbatim>\<open>0\<close>): no candidate is a truthy value that is not a
  string.
\<close>

definition string_or_falsy :: "json option \<Rightarrow> bool" where
  "string_or_falsy v = (case v of Some (JStr s) \<Rightarrow> True | _ \<Rightarrow> \<not> truthy_opt v)"

definition string_valued :: "json \<Rightarrow> bool" where
  "string_valued data \<longleftrightarrow>
     first_choice data \<noteq> Some JNull
     \<and> string_or_falsy (opt_field (opt_field (first_choice data) ''message'') ''content'')
     \<and> string_or_falsy (opt_field (first_choice data) ''text'')
     \<and> string_or_falsy (field data ''generated_text'')
     \<and> string_or_falsy (field data ''output_text'')
     \<and> string_or_falsy (field data ''text'')"

subsection \<open>Example inputs\<close>

definition example_config :: config where
  "example_config =
     \<lparr>HF_API_KEY = Some (of_ascii ''hf_token''),
      HF_MODEL = of_ascii ''acme/model-a'',
      getSystemPrompt = Some (of_ascii ''You are a bot'')\<rparr>"

definition no_key_config :: config where
  "no_key_config = example_config\<lparr>HF_API_KEY := None\<rparr>"

definition http_response :: "nat \<Rightarrow> jstring \<Rightarrow> json option \<Rightarrow> outcome" where
  "http_response s t j = Http \<lparr>status = s, statusText = [], body_text = t, body_json = j\<rparr>"

definition chat_completion :: "jstring \<Rightarrow> json" where
  \<comment> \<open>\<^verbatim>\<open>{"choices": [{"message": {"role": "assistant", "content": t}}]}\<close>\<close>
  "chat_completion t =
     JObj [(of_ascii ''choices'',
            JArr [JObj [(of_ascii ''message'',
                         JObj [(of_ascii ''role'', JStr (of_ascii ''assistant'')),
                               (of_ascii ''content'', JStr t)])]])]"

definition greeting :: jstring where
  "greeting = of_ascii ''Hi there''"

definition net_503_404_ok :: network where
  \<comment> \<open>503, then 404, then 200 with a chat completion\<close>
  "net_503_404_ok k req =
     (if k = 0 then http_response 503 (of_ascii ''loading'') None
      else if k = 1 then http_response 404 (of_ascii ''Not Found'') None
      else http_response 200 [] (Some (chat_completion greeting)))"

definition model_not_supported_payload :: json where
  \<comment> \<open>\<^verbatim>\<open>{"error": {"code": "model_not_supported", "message": "no"}}\<close>\<close>
  "model_not_supported_payload =
     JObj [(of_ascii ''error'',
            JObj [(of_ascii ''code'', JStr (of_ascii ''model_not_supported'')),
                  (of_ascii ''message'', JStr (of_ascii ''no''))])]"

definition net_unsupported_then_ok :: network where
  \<comment> \<open>400 with \<^verbatim>\<open>model_not_supported\<close>, then 200 with a chat completion\<close>
  "net_unsupported_then_ok k req =
     (if k = 0 then http_response 400 [] (Some model_not_supported_payload)
      else http_response 200 [] (Some (chat_completion greeting)))"

definition default_config :: config where
  \<comment> \<open>\<^verbatim>\<open>HF_MODEL\<close> unset: line 215 gives it its default\<close>
  "default_config =
     example_config\<lparr>HF_MODEL := of_ascii ''meta-llama/Meta-Llama-3-8B-Instruct''\<rparr>"

definition net_unsupported_503_404_ok :: network where
  \<comment> \<open>400 with \<^verbatim>\<open>model_not_supported\<close>, then 503, then 404, then 200 with a chat completion\<close>
  "net_unsupported_503_404_ok k req =
     (if k = 0 then http_response 400 [] (Some model_not_supported_payload)
      else if k = 1 then http_response 503 (of_ascii ''loading'') None
      else if k = 2 then http_response 404 (of_ascii ''Not Found'') None
      else http_response 200 [] (Some (chat_completion greeting)))"

definition net_down :: network where
  \<comment> \<open>every request fails below HTTP\<close>
  "net_down k req = NetworkError (of_ascii ''fetch failed'')"

definition net_warming :: network where
  \<comment> \<open>every request is answered 503\<close>
  "net_warming k req = http_response 503 (of_ascii ''loading'') None"

definition net_blank :: network where
  \<comment> \<open>200 with the body \<^verbatim>\<open>{"generated_text": " "}\<close>\<close>
  "net_blank k req =
     http_response 200 [] (Some (JObj [(of_ascii ''generated_text'', JStr (of_ascii '' ''))]))"

definition net_empty_object :: network where
  \<comment> \<open>200 with the body \<^verbatim>\<open>{}\<close>\<close>
  "net_empty_object k req = http_response 200 (of_ascii ''{}'') (Some (JObj []))"

definition net_reply :: "jstring \<Rightarrow> network" where
  \<comment> \<open>200 with a chat completion whose content is the given text\<close>
  "net_reply t k req = http_response 200 [] (Some (chat_completion t))"

definition turn_pair :: "string \<Rightarrow> string \<Rightarrow> ChatMessage list" where
  "turn_pair q a =
     [\<lparr>role = User, content = of_ascii q\<rparr>, \<lparr>role = Assistant, content = of_ascii a\<rparr>]"

definition store_with_history :: store where
  \<comment> \<open>user 7 has one exchange behind it\<close>
  "store_with_history = [7 \<mapsto> turn_pair ''q1'' ''a1'']"

definition six_calls :: "(int \<times> jstring \<times> network) list" where
  \<comment> \<open>six successful exchanges of user 7\<close>
  "six_calls =
     map (\<lambda>(q, a). (7, of_ascii q, net_reply (of_ascii a)))
       [(''q1'', ''a1''), (''q2'', ''a2''), (''q3'', ''a3''),
        (''q4'', ''a4''), (''q5'', ''a5''), (''q6'', ''a6'')]"

section \<open>Properties\<close>

subsection \<open>The nested loops issue the requests of the flat traversal\<close>

text \<open>
  One pass of the loop body adds one request, and ends as the answer to it says. By
  induction on the endpoints, then on the models, the requests of the nested loops are
  those of \<open>traverse\<close> on the candidates in model-major order.
\<close>

lemma attempt_requests:
  "requests (snd (attempt key messages net model ep st))
     = requests st @ [make_request key messages model ep]"
  by (simp add: attempt_def Let_def split: outcome.splits)

lemma attempt_flow:
  "fst (attempt key messages net model ep st) =
     (let out = net (length (requests st)) (make_request key messages model ep)
      in if is_2xx out then BreakOuter else if unsupported out then Break else Continue)"
  by (simp add: attempt_def Let_def is_2xx_def unsupported_def split: outcome.splits)

lemma endpoint_loop_traverse:
  "endpoint_loop key messages net model eps st = (b, st') \<Longrightarrow>
   requests st' = requests st @ traverse key messages net (length (requests st)) (map (\<lambda>ep. (i, model, ep)) eps)
   \<and> (\<not> b \<longrightarrow> (\<forall>cs. (\<forall>c\<in>set cs. fst c \<noteq> i) \<longrightarrow> traverse key messages net (length (requests st)) (map (\<lambda>ep. (i, model, ep)) eps @ cs) = 
        traverse key messages net (length (requests st)) (map (\<lambda>ep. (i, model, ep)) eps) @ traverse key messages net (length (requests st')) cs))
   \<and> (b \<longrightarrow> (\<forall>cs. traverse key messages net (length (requests st)) (map (\<lambda>ep. (i, model, ep)) eps @ cs) = 
        traverse key messages net (length (requests st)) (map (\<lambda>ep. (i, model, ep)) eps)))"
proof (induction eps arbitrary: st)
  case Nil
  then show ?case by simp
next
  case (Cons ep eps)
  obtain fl st1 where a: "attempt key messages net model ep st = (fl, st1)"
    by (cases "attempt key messages net model ep st")
  have r1: "requests st1 = requests st @ [make_request key messages model ep]"
    using attempt_requests[of key messages net model ep st] a by simp
  have f1: "fl = (let out = net (length (requests st)) (make_request key messages model ep)
      in if is_2xx out then BreakOuter else if unsupported out then Break else Continue)"
    using attempt_flow[of key messages net model ep st] a by simp
  show ?case
  proof (cases fl)
    case Continue
    then have e: "endpoint_loop key messages net model eps st1 = (b, st')"
      using Cons.prems a by simp
    from Cons.IH[OF e] r1 f1 Continue show ?thesis
      by (auto simp: Let_def split: if_splits)
  next
    case Break
    then have e: "b = False" "st' = st1"
      using Cons.prems a by auto
    have flt: "\<And>cs. (\<forall>c\<in>set cs. fst c \<noteq> i) \<Longrightarrow> filter (\<lambda>c. fst c \<noteq> i) (map (\<lambda>ep. (i, model, ep)) eps @ cs) = cs"
      by (induction eps) (auto simp: filter_id_conv)
    have flt0: "filter (\<lambda>c. fst c \<noteq> i) (map (\<lambda>ep. (i, model, ep)) eps) = []"
      by (induction eps) auto
    from e r1 f1 Break show ?thesis
      by (auto simp: Let_def flt flt0 split: if_splits)
  next
    case BreakOuter
    then have e: "b = True" "st' = st1"
      using Cons.prems a by auto
    from e r1 f1 BreakOuter show ?thesis
      by (auto simp: Let_def split: if_splits)
  qed
qed

lemma later_candidates:
  "\<forall>c \<in> set (concat (map (\<lambda>(i, model). map (\<lambda>ep. (i, model, ep)) endpoints) (enumerate (Suc j) models))). fst c \<noteq> j"
  by (auto simp: in_set_enumerate_eq)

lemma model_loop_traverse:
  "requests (model_loop key messages net models st)
     = requests st @ traverse key messages net (length (requests st))
         (concat (map (\<lambda>(i, model). map (\<lambda>ep. (i, model, ep)) endpoints) (enumerate j models)))"
proof (induction models arbitrary: st j)
  case Nil
  then show ?case by simp
next
  case (Cons model models)
  obtain b st1 where e: "endpoint_loop key messages net model endpoints st = (b, st1)"
    by (cases "endpoint_loop key messages net model endpoints st")
  note t = endpoint_loop_traverse[OF e, of j]
  let ?rest = "concat (map (\<lambda>(i, model). map (\<lambda>ep. (i, model, ep)) endpoints) (enumerate (Suc j) models))"
  show ?case
  proof (cases b)
    case True
    with e t show ?thesis by simp
  next
    case False
    have "traverse key messages net (length (requests st)) (map (\<lambda>ep. (j, model, ep)) endpoints @ ?rest)
        = traverse key messages net (length (requests st)) (map (\<lambda>ep. (j, model, ep)) endpoints)
          @ traverse key messages net (length (requests st1)) ?rest"
      using t False later_candidates[of j models] by blast
    with e t False Cons.IH[of st1 "Suc j"] show ?thesis by simp
  qed
qed

lemma model_loop_candidates:
  "requests (model_loop key messages net models init_state)
     = traverse key messages net 0 (candidates models)"
  using model_loop_traverse[of key messages net models init_state 0]
  by (simp add: candidates_def init_state_def)

text \<open>A request answered 2xx is the last one of a traversal.\<close>

lemma traverse_stops:
  "k < length (traverse key messages net n cs) \<Longrightarrow>
   is_2xx (net (n + k) (traverse key messages net n cs ! k)) \<Longrightarrow>
   Suc k = length (traverse key messages net n cs)"
proof (induction key messages net n cs arbitrary: k rule: traverse.induct)
  case (1 key messages net n)
  then show ?case by simp
next
  case (2 key messages net n i model ep cs)
  let ?req = "make_request key messages model ep"
  show ?case
  proof (cases "is_2xx (net n ?req)")
    case True
    with "2.prems" show ?thesis by (simp add: Let_def)
  next
    case False
    note nok = False
    show ?thesis
    proof (cases k)
      case 0
      with "2.prems" nok show ?thesis by (simp add: Let_def split: if_splits)
    next
      case (Suc k')
      show ?thesis
      proof (cases "unsupported (net n ?req)")
        case True
        with "2.prems" nok Suc "2.IH"(1)[OF refl refl nok True, of k'] show ?thesis
          by (simp add: Let_def)
      next
        case False
        with "2.prems" nok Suc "2.IH"(2)[OF refl refl nok False, of k'] show ?thesis
          by (simp add: Let_def)
      qed
    qed
  qed
qed

lemma callHuggingFace_requests:
  "HF_API_KEY cfg = Some key \<Longrightarrow> key \<noteq> [] \<Longrightarrow>
   snd (callHuggingFace cfg messages net) = traverse key messages net 0 (candidates (modelsToTry cfg))"
  by (simp add: callHuggingFace_def Let_def model_loop_candidates)

text \<open>A chat completion with a non-empty content is a success.\<close>

lemma from_data_chat:
  assumes "field data ''choices'' = Some (JArr (choice # rest))"
    and "field choice ''message'' = Some msg"
    and "field msg ''content'' = Some (JStr t)"
    and "t \<noteq> []"
  shows "from_data data = Inr (succeeded (trim t))"
proof -
  have d: "is_object data" "truthy data"
    using assms(1) by (cases data; simp add: is_object_def)+
  have c1: "choice \<noteq> JNull"
    using assms(2) by (cases choice; simp)
  have c2: "truthy_opt (Some msg)"
    using assms(3) by (cases msg; simp add: truthy_opt_def)
  note c = c1 c2
  have "from_choices data = Inr (Some (JStr t))"
    using assms c by (simp add: from_choices_def truthy_opt_def)
  then show ?thesis
    using d assms(4) by (simp add: from_data_def extractGeneratedText_def)
qed

lemma scenario_503_404_2xx:
  assumes key: "HF_API_KEY cfg = Some key" "key \<noteq> []"
    and n0: "net 0 (make_request key messages (HF_MODEL cfg) Router_v1) = Http r1" "status r1 = 503"
    and n1: "net 1 (make_request key messages (HF_MODEL cfg) Router_v2) = Http r2" "status r2 = 404"
    and n2: "net 2 (make_request key messages (HF_MODEL cfg) Router_v3) = Http r3" "ok r3"
       "body_json r3 = Some data"
    and chat: "field data ''choices'' = Some (JArr (choice # rest))"
       "field choice ''message'' = Some msg"
       "field msg ''content'' = Some (JStr t)" "t \<noteq> []"
  shows "callHuggingFace cfg messages net =
          (succeeded (trim t),
           [make_request key messages (HF_MODEL cfg) Router_v1,
            make_request key messages (HF_MODEL cfg) Router_v2,
            make_request key messages (HF_MODEL cfg) Router_v3])"
proof -
  have s3: "status r3 \<noteq> 503" using n2(2) by (auto simp: ok_def)
  have st: "model_loop key messages net (modelsToTry cfg) init_state =
     \<lparr>lastError = Some (of_ascii ''404 Not Found: '' @ substring0 (body_text r2) 200),
      response = Some r3, lastResponseText = body_text r3,
      requests = [make_request key messages (HF_MODEL cfg) Router_v1,
            make_request key messages (HF_MODEL cfg) Router_v2,
            make_request key messages (HF_MODEL cfg) Router_v3]\<rparr>"
    using n0 n1 n2[unfolded numeral_2_eq_2]
    by (simp add: modelsToTry_def endpoints_def attempt_def init_state_def ok_def Let_def)
  show ?thesis
    using key s3 n2 from_data_chat[OF chat]
    by (simp add: callHuggingFace_def st after_loops_def)
qed

subsection \<open>Skipping by entry and skipping by model\<close>

text \<open>
  When the model list has no repeated model, dropping the candidates of an entry and
  dropping the candidates of a model are the same, and the two traversals agree.
\<close>

lemma entry_is_model_iff:
  "entry_is_model cs \<longleftrightarrow>
     (\<forall>c \<in> set cs. \<forall>d \<in> set cs. (fst c = fst d) = (fst (snd c) = fst (snd d)))"
  by (simp add: entry_is_model_def list_all_iff)

lemma entry_is_model_filter: "entry_is_model cs \<Longrightarrow> entry_is_model (filter P cs)"
  by (auto simp: entry_is_model_iff)

lemma entry_is_model_tail: "entry_is_model (c # cs) \<Longrightarrow> entry_is_model cs"
  by (auto simp: entry_is_model_iff)

lemma entry_is_model_skip:
  "entry_is_model ((i, model, ep) # cs) \<Longrightarrow>
   filter (\<lambda>c. fst c \<noteq> i) cs = filter (\<lambda>c. fst (snd c) \<noteq> model) cs"
  by (rule filter_cong[OF refl]) (auto simp: entry_is_model_iff)

lemma traverse_by_model_eq:
  "entry_is_model cs \<Longrightarrow>
   traverse key messages net n cs = traverse_by_model key messages net n cs"
proof (induction key messages net n cs rule: traverse.induct)
  case (1 key messages net n)
  then show ?case by simp
next
  case (2 key messages net n i model ep cs)
  let ?req = "make_request key messages model ep"
  show ?case
  proof (cases "is_2xx (net n ?req)")
    case True
    then show ?thesis by (simp add: Let_def)
  next
    case False
    note nok = False
    show ?thesis
    proof (cases "unsupported (net n ?req)")
      case True
      have "entry_is_model (filter (\<lambda>c. fst c \<noteq> i) cs)"
        using "2.prems" entry_is_model_tail entry_is_model_filter by blast
      from "2.IH"(1)[OF refl refl nok True this] True nok
        entry_is_model_skip[OF "2.prems"]
      show ?thesis by (simp add: Let_def)
    next
      case False
      have "entry_is_model cs"
        using "2.prems" entry_is_model_tail by blast
      from "2.IH"(2)[OF refl refl nok False this] False nok
      show ?thesis by (simp add: Let_def)
    qed
  qed
qed

lemma candidates_set:
  "c \<in> set (concat (map (\<lambda>(i, model). map (\<lambda>ep. (i, model, ep)) endpoints) (enumerate 0 models)))
   \<Longrightarrow> fst c < length models \<and> fst (snd c) = models ! fst c"
  by (auto simp: in_set_enumerate_eq)

lemma candidates_entry_is_model:
  assumes "distinct models"
  shows "entry_is_model (candidates models)"
  unfolding entry_is_model_iff candidates_def
proof (intro ballI)
  fix c d
  assume "c \<in> set (concat (map (\<lambda>(i, model). map (\<lambda>ep. (i, model, ep)) endpoints) (enumerate 0 models)))"
    and "d \<in> set (concat (map (\<lambda>(i, model). map (\<lambda>ep. (i, model, ep)) endpoints) (enumerate 0 models)))"
  then have "fst c < length models" "fst (snd c) = models ! fst c"
    "fst d < length models" "fst (snd d) = models ! fst d"
    using candidates_set by blast+
  then show "(fst c = fst d) = (fst (snd c) = fst (snd d))"
    using assms by (simp add: nth_eq_iff_index_eq)
qed

subsection \<open>What a request carries\<close>

text \<open>
  For a message list that is not empty, \<^verbatim>\<open>buildPrompt\<close> is the flattening
  \<open>flat_prompt\<close>, and the body of a request is the relabelled list or the flattened
  one.
\<close>

lemma join_lines:
  "xs \<noteq> [] \<Longrightarrow> join [0xA] xs @ [0xA] = concat (map (\<lambda>x. x @ [0xA]) xs)"
  by (induction "[0xA :: 16 word]" xs rule: join.induct) simp_all

lemma buildPrompt_flat:
  assumes "messages \<noteq> []"
  shows "buildPrompt messages = flat_prompt messages"
proof -
  have l: "roleLabels (role m) @ of_ascii '': '' @ content m @ [0xA] = prompt_line m" for m
    by (cases "role m") (simp_all add: roleLabels_def prompt_line_def of_ascii_def)
  have "join [0xA] (map (\<lambda>m. roleLabels (role m) @ of_ascii '': '' @ content m) messages) @ [0xA]
      = concat (map prompt_line messages)"
    using assms by (simp add: join_lines comp_def l)
  then show ?thesis
    by (simp add: buildPrompt_def flat_prompt_def)
qed

lemma relabel_on_wire:
  "map (\<lambda>m. \<lparr>role = (if role m = Assistant then Assistant else User), content = content m\<rparr>) ms
     = map on_wire ms"
  by (rule map_cong[OF refl]) (simp add: on_wire_def split: role.splits)

lemma make_request_body:
  assumes "messages \<noteq> []"
  shows "body (make_request key messages model ep) =
     (case ep of
        Router_v1 \<Rightarrow> ChatBody model (map on_wire messages)
      | Router_v2 \<Rightarrow> InferenceBody model (flat_prompt messages)
      | Router_v3 \<Rightarrow> InputsBody (flat_prompt messages))"
  using assms
  by (cases ep) (simp_all add: make_request_def endpoint_body_def relabel_on_wire buildPrompt_flat)

subsection \<open>The state after the loops\<close>

text \<open>Every pass of the loop body keeps \<open>loop_inv\<close>, so it holds after the loops.\<close>

lemma outcomes_snoc:
  "outcomes net (reqs @ [req]) = outcomes net reqs @ [net (length reqs) req]"
  by (simp add: outcomes_def nth_append)

lemma last_http_snoc:
  "last_http (outs @ [out]) = (case out of Http r \<Rightarrow> Some r | NetworkError e \<Rightarrow> last_http outs)"
  by (cases out) (simp_all add: last_http_def)

lemma loop_inv_init: "loop_inv net init_state"
  by (simp add: loop_inv_def init_state_def outcomes_def last_http_def)

lemma attempt_inv:
  "loop_inv net st \<Longrightarrow> loop_inv net (snd (attempt key messages net model ep st))"
  by (auto simp: loop_inv_def attempt_def Let_def outcomes_snoc last_http_snoc split: outcome.splits option.splits)

lemma endpoint_loop_inv:
  "loop_inv net st \<Longrightarrow> loop_inv net (snd (endpoint_loop key messages net model eps st))"
proof (induction eps arbitrary: st)
  case Nil
  then show ?case by simp
next
  case (Cons ep eps)
  obtain fl st1 where a: "attempt key messages net model ep st = (fl, st1)"
    by (cases "attempt key messages net model ep st")
  have i1: "loop_inv net st1"
    using attempt_inv[OF Cons.prems, of key messages model ep] a by simp
  show ?case
    using a i1 Cons.IH[OF i1] by (cases fl) simp_all
qed

lemma model_loop_inv:
  "loop_inv net st \<Longrightarrow> loop_inv net (model_loop key messages net models st)"
proof (induction models arbitrary: st)
  case Nil
  then show ?case by simp
next
  case (Cons model models)
  obtain b st1 where e: "endpoint_loop key messages net model endpoints st = (b, st1)"
    by (cases "endpoint_loop key messages net model endpoints st")
  have i1: "loop_inv net st1"
    using endpoint_loop_inv[OF Cons.prems, of key messages model endpoints] e by simp
  show ?case
    using e i1 Cons.IH[OF i1] by (cases b) simp_all
qed

lemma first_http_mem: "first_http outs = Some r \<Longrightarrow> Http r \<in> set outs"
  by (induction outs rule: first_http.induct) auto

lemma last_http_mem: "last_http outs = Some r \<Longrightarrow> Http r \<in> set outs"
  using first_http_mem[of "rev outs" r] by (simp add: last_http_def)

text \<open>
  The third operand of line 507, \<^verbatim>\<open>errorData?.error?.message\<close>, is only reached when
  \<^verbatim>\<open>errorData?.error\<close> is falsy, and is \<^verbatim>\<open>undefined\<close> then.
\<close>

lemma opt_field_falsy: "\<not> truthy_opt v \<Longrightarrow> opt_field v k = None"
proof (cases v)
  case None
  then show ?thesis by simp
next
  case (Some j)
  assume "\<not> truthy_opt v"
  with Some show ?thesis by (cases j) (simp_all add: truthy_opt_def)
qed

lemma errorMessage_priority: "errorMessage r (body_text r) = error_by_priority r"
  using opt_field_falsy[of "opt_field (body_json r) ''error''" "''message''"]
  by (auto simp: errorMessage_def error_by_priority_def js_or_def truthy_opt_def)

lemma traverse_nonempty: "cs \<noteq> [] \<Longrightarrow> traverse key messages net n cs \<noteq> []"
  by (cases cs) (auto simp: Let_def split: if_splits)

lemma candidates_nonempty: "candidates (modelsToTry cfg) \<noteq> []"
  by (simp add: candidates_def modelsToTry_def endpoints_def enumerate_eq_zip upt_rec)

subsection \<open>The results of callHuggingFace\<close>

lemma from_data_cases:
  "from_data data = Inr res \<Longrightarrow>
     res = failed (Some (JStr msg_empty_response)) api_error
     \<or> (\<exists>g. g \<noteq> [] \<and> extractGeneratedText data = Inr (Some (JStr g)) \<and> res = succeeded (trim g))"
  by (auto simp: from_data_def split: sum.splits option.splits json.splits if_splits)

lemma after_loops_cases:
  "after_loops st = Inr res \<Longrightarrow>
     (\<exists>e t. res = failed e t \<and> (t = api_error \<or> t = provider_unavailable))
     \<or> (\<exists>g. g \<noteq> [] \<and> res = succeeded (trim g))"
  by (auto simp: after_loops_def split: option.splits if_splits dest: from_data_cases)

lemma callHuggingFace_cases:
  "(\<exists>e t. fst (callHuggingFace cfg messages net) = failed e t
          \<and> (t = api_error \<or> t = provider_unavailable))
   \<or> (\<exists>g. g \<noteq> [] \<and> fst (callHuggingFace cfg messages net) = succeeded (trim g))"
proof (cases "has_key cfg")
  case False
  then show ?thesis
    by (auto simp: callHuggingFace_def has_key_def split: option.splits)
next
  case True
  then obtain key where key: "HF_API_KEY cfg = Some key" "key \<noteq> []"
    by (auto simp: has_key_def split: option.splits)
  define st where "st = model_loop key messages net (modelsToTry cfg) init_state"
  have c: "fst (callHuggingFace cfg messages net) =
      (case after_loops st of
         Inl e \<Rightarrow> failed (Some (JStr (if e \<noteq> [] then e else msg_unknown_hf))) api_error
       | Inr res \<Rightarrow> res)"
    using key by (simp add: callHuggingFace_def st_def Let_def)
  show ?thesis
  proof (cases "after_loops st")
    case (Inl e)
    with c show ?thesis by auto
  next
    case (Inr res)
    with c after_loops_cases[OF Inr] show ?thesis by auto
  qed
qed

subsection \<open>The history over a sequence of calls\<close>

lemma slice_last_slice_last:
  "slice_last n (slice_last n xs @ ys) = slice_last n (xs @ ys)"
proof (cases "n \<le> length xs")
  case True
  then have "length ys + length xs - n = length xs + length ys - n"
    by simp
  then show ?thesis
    using True by (simp add: slice_last_def)
next
  case False
  then show ?thesis by (simp add: slice_last_def)
qed

lemma length_slice_last: "length (slice_last n xs) \<le> n"
  by (simp add: slice_last_def)

lemma slice_last_short: "length xs \<le> n \<Longrightarrow> slice_last n xs = xs"
  by (simp add: slice_last_def)

lemma getAIResponse_store:
  "fst (snd (getAIResponse cfg store userId userMessage net)) v =
     (if pushed_turns cfg store [(userId, userMessage, net)] v = [] then store v
      else Some (slice_last MAX_HISTORY
                  (history_of store v @ pushed_turns cfg store [(userId, userMessage, net)] v)))"
  by (auto simp: getAIResponse_def Let_def history_of_def slice_last_short failed_def
      split: prod.splits option.splits)

lemma run_history:
  "run cfg store calls v =
     (if pushed_turns cfg store calls v = [] then store v
      else Some (slice_last MAX_HISTORY (history_of store v @ pushed_turns cfg store calls v)))"
proof (induction calls arbitrary: store)
  case Nil
  then show ?case by simp
next
  case (Cons call calls)
  obtain userId userMessage net where call: "call = (userId, userMessage, net)"
    by (cases call)
  obtain res store' reqs where g: "getAIResponse cfg store userId userMessage net = (res, store', reqs)"
    by (cases "getAIResponse cfg store userId userMessage net")
  define now where "now = pushed_turns cfg store [(userId, userMessage, net)] v"
  define later where "later = pushed_turns cfg store' calls v"
  have all: "pushed_turns cfg store (call # calls) v = now @ later"
    using g by (simp add: call now_def later_def)
  have s': "store' v = (if now = [] then store v
      else Some (slice_last MAX_HISTORY (history_of store v @ now)))"
    using getAIResponse_store[of cfg store userId userMessage net v] g by (simp add: now_def)
  have r: "run cfg store (call # calls) v = run cfg store' calls v"
    using g by (simp add: call)
  show ?case
    unfolding r Cons.IH[of store'] all later_def[symmetric]
    using s' by (auto simp: history_of_def slice_last_slice_last)
qed

subsection \<open>Extraction on string-valued bodies\<close>

lemma truthy_string: "string_or_falsy v \<Longrightarrow> truthy_opt v \<longleftrightarrow> nonempty_string v \<noteq> None"
  by (auto simp: string_or_falsy_def truthy_opt_def nonempty_string_def split: option.splits json.splits)

lemma nonempty_string_Some: "string_or_falsy v \<Longrightarrow> nonempty_string v = Some s \<Longrightarrow> v = Some (JStr s)"
  by (auto simp: string_or_falsy_def nonempty_string_def split: option.splits json.splits if_splits)

lemma nonempty_string_None: "string_or_falsy v \<Longrightarrow> nonempty_string v = None \<Longrightarrow> \<not> truthy_opt v"
  by (auto simp: string_or_falsy_def truthy_opt_def nonempty_string_def split: option.splits json.splits if_splits)

lemma from_choices_string_valued:
  assumes "string_valued data"
  shows "from_choices data =
     Inr (map_option JStr (first_some
       [nonempty_string (opt_field (opt_field (first_choice data) ''message'') ''content''),
        nonempty_string (opt_field (first_choice data) ''text'')]))"
proof (cases "first_choice data")
  case None
  then show ?thesis
    by (auto simp: from_choices_def first_choice_def nonempty_string_def split: option.splits json.splits list.splits)
next
  case (Some choice)
  then obtain rest where ch: "field data ''choices'' = Some (JArr (choice # rest))"
    by (auto simp: first_choice_def split: option.splits json.splits list.splits)
  have nn: "choice \<noteq> JNull"
    using assms Some by (simp add: string_valued_def)
  have sc: "string_or_falsy (opt_field (opt_field (Some choice) ''message'') ''content'')"
    and st: "string_or_falsy (opt_field (Some choice) ''text'')"
    using assms Some by (simp_all add: string_valued_def)
  have of1: "opt_field (Some choice) k = field choice k" for k
    using nn by (cases choice) simp_all
  have content: "(case field choice ''message'' of None \<Rightarrow> None | Some m \<Rightarrow> field m ''content'')
        = opt_field (field choice ''message'') ''content''"
    by (cases "field choice ''message''"; simp) (rename_tac m, case_tac m; simp)
  have tm: "truthy_opt (opt_field (field choice ''message'') ''content'') \<Longrightarrow> truthy_opt (field choice ''message'')"
    by (cases "field choice ''message''"; simp add: truthy_opt_def) (rename_tac m, case_tac m; simp)
  show ?thesis
  proof (cases "nonempty_string (opt_field (field choice ''message'') ''content'')")
    case (Some s)
    with sc of1 have v: "opt_field (field choice ''message'') ''content'' = Some (JStr s)"
      by (simp add: nonempty_string_Some)
    then have t: "truthy_opt (opt_field (field choice ''message'') ''content'')"
      using Some by (auto simp: truthy_opt_def nonempty_string_def split: if_splits)
    show ?thesis
      using nn t tm[OF t] v Some \<open>first_choice data = Some choice\<close>
      by (simp add: from_choices_def ch content of1 Let_def)
  next
    case None
    with sc of1 have f: "\<not> truthy_opt (opt_field (field choice ''message'') ''content'')"
      by (simp add: nonempty_string_None)
    show ?thesis
    proof (cases "nonempty_string (field choice ''text'')")
      case None
      with st of1 have "\<not> truthy_opt (field choice ''text'')"
        by (simp add: nonempty_string_None)
      with f nn None \<open>nonempty_string (opt_field (field choice ''message'') ''content'') = None\<close>
        \<open>first_choice data = Some choice\<close>
      show ?thesis
        by (simp add: from_choices_def ch content of1 Let_def)
    next
      case (Some s)
      with st of1 have v: "field choice ''text'' = Some (JStr s)"
        by (simp add: nonempty_string_Some)
      then have "truthy_opt (field choice ''text'')"
        using Some by (auto simp: truthy_opt_def nonempty_string_def split: if_splits)
      with f nn v Some \<open>nonempty_string (opt_field (field choice ''message'') ''content'') = None\<close>
        \<open>first_choice data = Some choice\<close>
      show ?thesis
        by (simp add: from_choices_def ch content of1 Let_def)
    qed
  qed
qed

lemma from_legacy_string_valued:
  assumes "string_valued data"
  shows "from_legacy data =
     map_option JStr (first_some
       [nonempty_string (field data ''generated_text''),
        nonempty_string (field data ''output_text''),
        nonempty_string (field data ''text'')])"
proof -
  have s: "string_or_falsy (field data ''generated_text'')"
    "string_or_falsy (field data ''output_text'')"
    "string_or_falsy (field data ''text'')"
    using assms by (simp_all add: string_valued_def)
  show ?thesis
    using truthy_string[OF s(1)] truthy_string[OF s(2)] truthy_string[OF s(3)]
      nonempty_string_Some[OF s(1)] nonempty_string_Some[OF s(2)] nonempty_string_Some[OF s(3)]
    by (auto simp: from_legacy_def)
qed

lemma from_array_or_string_eq:
  "truthy data \<Longrightarrow> from_array_or_string data =
     map_option JStr (first_some
       [element_candidate data,
        (case data of JStr s \<Rightarrow> nonempty_string (Some data) | _ \<Rightarrow> None)])"
  by (auto simp: from_array_or_string_def element_candidate_def first_element_def nonempty_string_def
      is_object_def split: json.splits list.splits option.splits)

lemma first_some_append:
  "first_some (xs @ ys) = (case first_some xs of Some x \<Rightarrow> Some x | None \<Rightarrow> first_some ys)"
  by (induction xs rule: first_some.induct) simp_all

lemma extract_in_order_split:
  "extract_in_order data =
     first_some
       ([nonempty_string (opt_field (opt_field (first_choice data) ''message'') ''content''),
         nonempty_string (opt_field (first_choice data) ''text'')]
        @ [nonempty_string (field data ''generated_text''),
           nonempty_string (field data ''output_text''),
           nonempty_string (field data ''text'')]
        @ [element_candidate data,
           (case data of JStr s \<Rightarrow> nonempty_string (Some data) | _ \<Rightarrow> None)])"
  by (simp add: extract_in_order_def)

lemma not_object_fields:
  "\<not> is_object data \<Longrightarrow> first_choice data = None \<and> field data k = None"
  by (cases data) (simp_all add: is_object_def first_choice_def)

lemma extract_string_valued:
  assumes sv: "string_valued data"
  shows "extractGeneratedText data = Inr (map_option JStr (extract_in_order data))"
proof (cases "truthy data")
  case False
  then have "extract_in_order data = None"
    by (cases data)
      (simp_all add: extract_in_order_def first_choice_def nonempty_string_def
        element_candidate_def first_element_def)
  with False show ?thesis by (simp add: extractGeneratedText_def)
next
  case True
  show ?thesis
  proof (cases "is_object data")
    case False
    with True from_array_or_string_eq[OF True] not_object_fields[OF False] show ?thesis
      by (simp add: extractGeneratedText_def extract_in_order_def nonempty_string_def)
  next
    case True
    note obj = True
    let ?A = "first_some
       [nonempty_string (opt_field (opt_field (first_choice data) ''message'') ''content''),
        nonempty_string (opt_field (first_choice data) ''text'')]"
    let ?B = "first_some
       [nonempty_string (field data ''generated_text''),
        nonempty_string (field data ''output_text''),
        nonempty_string (field data ''text'')]"
    let ?C = "first_some
       [element_candidate data,
        (case data of JStr s \<Rightarrow> nonempty_string (Some data) | _ \<Rightarrow> None)]"
    have e: "extract_in_order data =
        (case ?A of Some x \<Rightarrow> Some x | None \<Rightarrow> (case ?B of Some x \<Rightarrow> Some x | None \<Rightarrow> ?C))"
      unfolding extract_in_order_split first_some_append ..
    have c: "from_choices data = Inr (map_option JStr ?A)"
      by (rule from_choices_string_valued[OF sv])
    have l: "from_legacy data = map_option JStr ?B"
      by (rule from_legacy_string_valued[OF sv])
    have a: "from_array_or_string data = map_option JStr ?C"
      by (rule from_array_or_string_eq[OF \<open>truthy data\<close>])
    show ?thesis
      unfolding e extractGeneratedText_def c l a
      using \<open>truthy data\<close> obj
      by (simp split: option.splits)
  qed
qed

subsection \<open>Trimming, and a call that ends on a 2xx response\<close>

lemma trim_edges:
  assumes "trim s \<noteq> []"
  shows "\<not> is_ws (hd (trim s)) \<and> \<not> is_ws (last (trim s))"
proof -
  define ys where "ys = dropWhile is_ws s"
  define zs where "zs = dropWhile is_ws (rev ys)"
  have t: "trim s = rev zs" by (simp add: trim_def ys_def zs_def)
  with assms have zne: "zs \<noteq> []" by simp
  then have "\<not> is_ws (hd zs)" unfolding zs_def by (rule hd_dropWhile)
  then have l: "\<not> is_ws (last (trim s))"
    using zne by (simp add: t last_rev)
  from zne have yne: "ys \<noteq> []" by (auto simp: zs_def)
  then have hy: "\<not> is_ws (hd ys)" unfolding ys_def by (rule hd_dropWhile)
  obtain as where as: "rev ys = as @ zs"
    unfolding zs_def by (metis takeWhile_dropWhile_id)
  then have "last (rev ys) = last zs" using zne by simp
  then have "last zs = hd ys" using yne by (simp add: last_rev)
  then have "hd (trim s) = hd ys" using zne by (simp add: t hd_rev)
  with hy l show ?thesis by simp
qed

lemma callHuggingFace_on_2xx:
  assumes key: "HF_API_KEY cfg = Some key" "key \<noteq> []"
    and lh: "last_http (outcomes net (snd (callHuggingFace cfg messages net))) = Some r"
    and ok: "ok r"
  shows "fst (callHuggingFace cfg messages net) =
     (case body_json r of
        None \<Rightarrow> failed (Some (JStr msg_parse_failed)) api_error
      | Some data \<Rightarrow>
          (case from_data data of
             Inl e \<Rightarrow> failed (Some (JStr (if e \<noteq> [] then e else msg_unknown_hf))) api_error
           | Inr res \<Rightarrow> res))"
proof -
  define st where "st = model_loop key messages net (modelsToTry cfg) init_state"
  have c: "callHuggingFace cfg messages net =
      (case after_loops st of
         Inl e \<Rightarrow> failed (Some (JStr (if e \<noteq> [] then e else msg_unknown_hf))) api_error
       | Inr res \<Rightarrow> res, requests st)"
    using key by (simp add: callHuggingFace_def st_def Let_def)
  have inv: "loop_inv net st"
    unfolding st_def by (rule model_loop_inv[OF loop_inv_init])
  then have "response st = Some r"
    using lh by (simp add: loop_inv_def c)
  moreover have "status r \<noteq> 503" using ok by (auto simp: ok_def)
  ultimately show ?thesis
    using ok by (simp add: c after_loops_def split: option.splits)
qed

text \<open>A network that gives every request the same response.\<close>

lemma last_http_constant:
  assumes "\<And>k req. net k req = Http r" and "reqs \<noteq> []"
  shows "last_http (outcomes net reqs) = Some r"
proof -
  from assms(2) obtain n where n: "length reqs = Suc n"
    by (cases reqs) auto
  have "outcomes net reqs = replicate (length reqs) (Http r)"
    by (simp add: outcomes_def assms(1) map_replicate_const)
  then show ?thesis
    by (simp only: n last_http_def rev_replicate) simp
qed

subsection \<open>The requests built by getAIResponse\<close>

lemma traverse_requests:
  "req \<in> set (traverse key messages net n cs) \<Longrightarrow>
   \<exists>c \<in> set cs. req = make_request key messages (fst (snd c)) (snd (snd c))"
proof (induction key messages net n cs rule: traverse.induct)
  case (1 key messages net n)
  then show ?case by simp
next
  case (2 key messages net n i model ep cs)
  let ?req = "make_request key messages model ep"
  show ?case
  proof (cases "req = ?req")
    case True
    then show ?thesis by auto
  next
    case False
    note other = False
    have nok: "\<not> is_2xx (net n ?req)"
      using "2.prems" other by (auto simp: Let_def split: if_splits)
    show ?thesis
    proof (cases "unsupported (net n ?req)")
      case True
      with "2.prems" other nok
      have "req \<in> set (traverse key messages net (Suc n) (filter (\<lambda>c. fst c \<noteq> i) cs))"
        by (simp add: Let_def)
      from "2.IH"(1)[OF refl refl nok True this] show ?thesis by force
    next
      case False
      with "2.prems" other nok
      have "req \<in> set (traverse key messages net (Suc n) cs)"
        by (simp add: Let_def)
      from "2.IH"(2)[OF refl refl nok False this] show ?thesis by force
    qed
  qed
qed

lemma traverse_hd:
  "hd (traverse key messages net n ((i, model, ep) # cs)) = make_request key messages model ep"
  by (simp add: Let_def)

lemma candidates_hd:
  "\<exists>cs. candidates (modelsToTry cfg) = (0, HF_MODEL cfg, Router_v1) # cs"
  by (simp add: candidates_def modelsToTry_def endpoints_def enumerate_eq_zip upt_rec)

lemma getAIResponse_enabled:
  assumes "has_key cfg" "getSystemPrompt cfg = Some prompt"
  shows "fst (getAIResponse cfg store userId userMessage net) =
           Some (fst (callHuggingFace cfg
             (\<lparr>role = System, content = prompt\<rparr> # history_of store userId
                @ [\<lparr>role = User, content = userMessage\<rparr>]) net))"
    and "snd (snd (getAIResponse cfg store userId userMessage net)) =
           snd (callHuggingFace cfg
             (\<lparr>role = System, content = prompt\<rparr> # history_of store userId
                @ [\<lparr>role = User, content = userMessage\<rparr>]) net)"
  using assms
  by (simp_all add: getAIResponse_def history_of_def Let_def split: prod.splits option.splits)

section \<open>The claims\<close>

text \<open>The definitions that evaluate a call on a concrete input.\<close>

lemmas run_defs =
  getAIResponse_def callHuggingFace_def has_key_def modelsToTry_def endpoints_def
  attempt_def init_state_def after_loops_def from_data_def extractGeneratedText_def
  from_choices_def from_legacy_def from_array_or_string_def is_object_def truthy_opt_def
  model_not_supported_def ok_def Let_def succeeded_def failed_def

lemmas example_defs =
  example_config_def no_key_config_def http_response_def chat_completion_def greeting_def
  net_503_404_ok_def model_not_supported_payload_def net_unsupported_then_ok_def
  net_down_def net_warming_def net_blank_def net_empty_object_def default_config_def
  net_unsupported_503_404_ok_def net_reply_def

lemma getAIResponse_reply:
  assumes "a \<noteq> []" "trim a = a"
  shows "getAIResponse example_config store 7 q (net_reply a) =
     (Some (succeeded a),
      store(7 \<mapsto> slice_last MAX_HISTORY
         (history_of store 7 @ [\<lparr>role = User, content = q\<rparr>, \<lparr>role = Assistant, content = a\<rparr>])),
      [make_request (of_ascii ''hf_token'')
         (\<lparr>role = System, content = of_ascii ''You are a bot''\<rparr> # history_of store 7
           @ [\<lparr>role = User, content = q\<rparr>])
         (of_ascii ''acme/model-a'') Router_v1])"
  using assms
  by (simp add: run_defs example_config_def net_reply_def http_response_def chat_completion_def
      of_ascii_def history_of_def slice_last_short)

subsection \<open>C1: a disabled service\<close>

text \<open>
  Claim C1. Without a credential (\<^verbatim>\<open>HF_API_KEY\<close> unset or empty), \<^verbatim>\<open>getAIResponse\<close>
  returns \<^verbatim>\<open>null\<close> for every user and message, issues no request, and leaves the
  conversation store as it was.
\<close>

theorem getAIResponse_disabled:
  "\<not> has_key cfg \<Longrightarrow> getAIResponse cfg store userId userMessage net = (None, store, [])"
  by (simp add: getAIResponse_def)

text \<open>The same at a configuration without a key.\<close>

theorem getAIResponse_disabled_witness:
  "\<not> has_key no_key_config
   \<and> getAIResponse no_key_config Map.empty 7 (of_ascii ''hello'') net_503_404_ok
       = (None, Map.empty, [])"
  using getAIResponse_disabled [of no_key_config Map.empty 7 "of_ascii ''hello''" net_503_404_ok]
  by (simp add: has_key_def no_key_config_def example_config_def)

subsection \<open>C2: the history is a window of the most recent turns\<close>

text \<open>
  Claim C2. After any sequence of calls that starts from the empty store, the history
  stored for a user has at most \<open>MAX_HISTORY\<close> turns, and it is the last
  \<open>MAX_HISTORY\<close> of the turns pushed for that user, in the order of the pushes; a
  user for whom nothing was pushed has no history.
\<close>

theorem history_window:
  "case run cfg Map.empty calls u of
     None \<Rightarrow> pushed_turns cfg Map.empty calls u = []
   | Some h \<Rightarrow>
       length h \<le> MAX_HISTORY
       \<and> h = slice_last MAX_HISTORY (pushed_turns cfg Map.empty calls u)"
  by (simp add: run_history history_of_def length_slice_last)

text \<open>
  Six successful exchanges of one user push twelve turns; the first exchange is evicted
  and the other five are kept in order.
\<close>

theorem history_window_witness:
  "pushed_turns example_config Map.empty six_calls 7
     = turn_pair ''q1'' ''a1'' @ turn_pair ''q2'' ''a2'' @ turn_pair ''q3'' ''a3''
       @ turn_pair ''q4'' ''a4'' @ turn_pair ''q5'' ''a5'' @ turn_pair ''q6'' ''a6''
   \<and> run example_config Map.empty six_calls 7
     = Some (turn_pair ''q2'' ''a2'' @ turn_pair ''q3'' ''a3'' @ turn_pair ''q4'' ''a4''
             @ turn_pair ''q5'' ''a5'' @ turn_pair ''q6'' ''a6'')"
proof -
  have t: "trim (of_ascii [CHR ''a'', c]) = of_ascii [CHR ''a'', c]"
    if "c \<in> {CHR ''1'', CHR ''2'', CHR ''3'', CHR ''4'', CHR ''5'', CHR ''6''}" for c
    using that by (auto simp: trim_def of_ascii_def is_ws_def)
  have n: "of_ascii [CHR ''a'', c] \<noteq> []" for c
    by (simp add: of_ascii_def)
  have p: "pushed_turns example_config Map.empty six_calls 7
     = turn_pair ''q1'' ''a1'' @ turn_pair ''q2'' ''a2'' @ turn_pair ''q3'' ''a3''
       @ turn_pair ''q4'' ''a4'' @ turn_pair ''q5'' ''a5'' @ turn_pair ''q6'' ''a6''"
    by (simp add: six_calls_def getAIResponse_reply t n succeeded_def turn_pair_def)
  have ne: "pushed_turns example_config Map.empty six_calls 7 \<noteq> []"
    by (simp add: p turn_pair_def)
  from history_window [of example_config six_calls 7] ne
  have "run example_config Map.empty six_calls 7
      = Some (slice_last MAX_HISTORY (pushed_turns example_config Map.empty six_calls 7))"
    by (cases "run example_config Map.empty six_calls 7") simp_all
  then show ?thesis
    unfolding p by (simp add: slice_last_def MAX_HISTORY_def turn_pair_def)
qed

subsection \<open>C3: the history changes only on success\<close>

text \<open>
  A call that returns \<^verbatim>\<open>null\<close> or a result with \<^verbatim>\<open>success: false\<close> leaves the
  store as it was. A call that returns \<^verbatim>\<open>success: true\<close> with a non-empty message
  stores, for that user, the last \<open>MAX_HISTORY\<close> turns of the previous history followed
  by the user turn and the assistant turn.
\<close>

lemma history_update:
  assumes "getAIResponse cfg store userId userMessage net = (res, store', reqs)"
  shows "(res = None \<longrightarrow> store' = store)
    \<and> (\<forall>r. res = Some r \<and> \<not> success r \<longrightarrow> store' = store)
    \<and> (\<forall>r m. res = Some r \<and> success r \<and> message r = Some m \<and> m \<noteq> [] \<longrightarrow>
          store' = store(userId \<mapsto>
            slice_last MAX_HISTORY
              (history_of store userId
               @ [\<lparr>role = User, content = userMessage\<rparr>,
                  \<lparr>role = Assistant, content = m\<rparr>])))"
  using assms
  by (auto simp: getAIResponse_def Let_def history_of_def slice_last_short failed_def
      split: if_splits prod.splits option.splits)

text \<open>A successful call and a failed call of a user without history.\<close>

lemma history_update_example:
  "getAIResponse example_config Map.empty 7 (of_ascii ''hello'') net_503_404_ok
     = (Some (succeeded greeting),
        [7 \<mapsto> [\<lparr>role = User, content = of_ascii ''hello''\<rparr>,
                \<lparr>role = Assistant, content = greeting\<rparr>]],
        snd (snd (getAIResponse example_config Map.empty 7 (of_ascii ''hello'') net_503_404_ok)))
   \<and> getAIResponse example_config Map.empty 7 (of_ascii ''hello'') net_warming
     = (Some (failed (Some (JStr msg_warming)) provider_unavailable),
        Map.empty,
        snd (snd (getAIResponse example_config Map.empty 7 (of_ascii ''hello'') net_warming)))"
proof -
  let ?ok = "getAIResponse example_config Map.empty 7 (of_ascii ''hello'') net_503_404_ok"
  let ?bad = "getAIResponse example_config Map.empty 7 (of_ascii ''hello'') net_warming"
  have r1: "fst ?ok = Some (succeeded greeting)"
    by (simp add: run_defs example_defs of_ascii_def trim_def is_ws_def)
  have r2: "fst ?bad = Some (failed (Some (JStr msg_warming)) provider_unavailable)"
    by (simp add: run_defs example_defs of_ascii_def)
  have g: "greeting \<noteq> []" by (simp add: greeting_def of_ascii_def)
  have e1: "?ok = (fst ?ok, fst (snd ?ok), snd (snd ?ok))" by simp
  have e2: "?bad = (fst ?bad, fst (snd ?bad), snd (snd ?bad))" by simp
  have "success (succeeded greeting) \<and> message (succeeded greeting) = Some greeting"
    by (simp add: succeeded_def)
  with history_update [OF e1] r1 g
  have s1: "fst (snd ?ok) = Map.empty(7 \<mapsto> slice_last MAX_HISTORY
              (history_of Map.empty 7
               @ [\<lparr>role = User, content = of_ascii ''hello''\<rparr>,
                  \<lparr>role = Assistant, content = greeting\<rparr>]))"
    by blast
  have "\<not> success (failed (Some (JStr msg_warming)) provider_unavailable)"
    by (simp add: failed_def)
  with history_update [OF e2] r2
  have s2: "fst (snd ?bad) = Map.empty"
    by blast
  have h: "slice_last MAX_HISTORY
              (history_of Map.empty 7
               @ [\<lparr>role = User, content = of_ascii ''hello''\<rparr>,
                  \<lparr>role = Assistant, content = greeting\<rparr>])
           = [\<lparr>role = User, content = of_ascii ''hello''\<rparr>,
              \<lparr>role = Assistant, content = greeting\<rparr>]"
    by (simp add: history_of_def slice_last_def MAX_HISTORY_def)
  show ?thesis
    using e1 e2 unfolding r1 r2 s1 s2 h by simp
qed

text \<open>
  Claim C3, at the input where it fails: a 2xx body whose generated text is a single
  space, for a user with one exchange behind it. The call returns \<^verbatim>\<open>success: true\<close>
  with the empty message (the emptiness test of line 547 runs before the \<^verbatim>\<open>trim\<close>
  of line 562), and the test of line 266 then keeps the two turns out of the history:
  the store is as it was.
\<close>

theorem blank_success_keeps_history:
  "fst (getAIResponse example_config store_with_history 7 (of_ascii ''hello'') net_blank)
     = Some \<lparr>success = True, message = Some [], error = None, errorType = None\<rparr>
   \<and> fst (snd (getAIResponse example_config store_with_history 7 (of_ascii ''hello'') net_blank))
     = store_with_history"
  by (simp add: run_defs example_defs store_with_history_def of_ascii_def trim_def is_ws_def)

subsection \<open>C4: the message of a success\<close>

text \<open>
  The message of a success is the trimmed generated text: when it is not empty it
  neither starts nor ends with white space.
\<close>

lemma success_message_trimmed:
  assumes "success (fst (callHuggingFace cfg messages net))"
  shows "\<exists>m. message (fst (callHuggingFace cfg messages net)) = Some m
           \<and> (m \<noteq> [] \<longrightarrow> \<not> is_ws (hd m) \<and> \<not> is_ws (last m))"
  using assms callHuggingFace_cases[of cfg messages net] trim_edges
  by (auto simp: failed_def succeeded_def)

text \<open>
  Claim C4, at the input where it fails: a 2xx body whose generated text is a single
  space. The emptiness test of line 547 runs before the \<^verbatim>\<open>trim\<close> of line 562, so
  the call returns \<^verbatim>\<open>success: true\<close> with the empty message.
\<close>

theorem blank_reply_is_empty_success:
  "getAIResponse example_config Map.empty 7 (of_ascii ''hello'') net_blank =
     (Some \<lparr>success = True, message = Some [], error = None, errorType = None\<rparr>,
      Map.empty,
      [make_request (of_ascii ''hf_token'')
         [\<lparr>role = System, content = of_ascii ''You are a bot''\<rparr>,
          \<lparr>role = User, content = of_ascii ''hello''\<rparr>]
         (of_ascii ''acme/model-a'') Router_v1])"
  by (simp add: run_defs example_defs of_ascii_def trim_def is_ws_def)

subsection \<open>C5: the messages of a call\<close>

text \<open>
  Claim C5 as stated fails for what reaches the provider: for a user without history
  the first request carries the system prompt with the role \<^verbatim>\<open>user\<close> (line 333
  writes every role other than \<^verbatim>\<open>assistant\<close> as \<^verbatim>\<open>user\<close>), and the second request
  carries the list flattened to one text.
\<close>

theorem system_role_on_wire_counterexample:
  "body (hd (snd (snd (getAIResponse example_config Map.empty 7 (of_ascii ''hello'')
                         net_503_404_ok))))
     = ChatBody (of_ascii ''acme/model-a'')
         [\<lparr>role = User, content = of_ascii ''You are a bot''\<rparr>,
          \<lparr>role = User, content = of_ascii ''hello''\<rparr>]
   \<and> body (snd (snd (getAIResponse example_config Map.empty 7 (of_ascii ''hello'')
                       net_503_404_ok)) ! 1)
     = InferenceBody (of_ascii ''acme/model-a'')
         (of_ascii ''System: You are a bot'' @ [0xA] @ of_ascii ''User: hello'' @ [0xA]
          @ of_ascii ''Assistant:'')
   \<and> \<lparr>role = User, content = of_ascii ''You are a bot''\<rparr>
       \<noteq> \<lparr>role = System, content = of_ascii ''You are a bot''\<rparr>"
  by (simp add: run_defs example_defs make_request_def endpoint_body_def buildPrompt_def
      roleLabels_def of_ascii_def)

text \<open>
  Claim C5, amended. With a credential and a system prompt, \<^verbatim>\<open>getAIResponse\<close> builds
  the list of the system prompt, the stored history of the user and the new user turn,
  and returns what \<^verbatim>\<open>callHuggingFace\<close> returns on it. Every request of the call
  carries this list in one of two forms: on the chat-completions endpoint the same
  contents in the same order, every role other than \<^verbatim>\<open>assistant\<close> written as
  \<^verbatim>\<open>user\<close>; on the other two endpoints one text with a line per message, the role's
  label, a colon and the content, followed by the line \<^verbatim>\<open>Assistant:\<close>. The first
  request is the chat-completions request of the configured model. For a user without
  history the list built is the system prompt and the new user turn.
\<close>

theorem messages_sent:
  fixes store :: store and userId :: int and userMessage prompt :: jstring
  assumes "HF_API_KEY cfg = Some key" and "key \<noteq> []" and "getSystemPrompt cfg = Some prompt"
  defines "built \<equiv> \<lparr>role = System, content = prompt\<rparr> # history_of store userId
                     @ [\<lparr>role = User, content = userMessage\<rparr>]"
    and "chat \<equiv> \<lparr>role = User, content = prompt\<rparr> # map on_wire (history_of store userId)
                   @ [\<lparr>role = User, content = userMessage\<rparr>]"
    and "flat \<equiv> of_ascii ''System: '' @ prompt @ [0xA]
                   @ concat (map prompt_line (history_of store userId))
                   @ of_ascii ''User: '' @ userMessage @ [0xA] @ of_ascii ''Assistant:''"
  shows "getAIResponse cfg store userId userMessage net =
           (Some (fst (callHuggingFace cfg built net)),
            fst (snd (getAIResponse cfg store userId userMessage net)),
            snd (callHuggingFace cfg built net))
    \<and> snd (callHuggingFace cfg built net) \<noteq> []
    \<and> hd (snd (callHuggingFace cfg built net))
         = \<lparr>url = of_ascii ''https://router.huggingface.co/v1/chat/completions'',
            authorization = of_ascii ''Bearer '' @ key,
            body = ChatBody (HF_MODEL cfg) chat\<rparr>
    \<and> (\<forall>req \<in> set (snd (callHuggingFace cfg built net)).
          \<exists>model. body req = ChatBody model chat
                 \<or> body req = InferenceBody model flat
                 \<or> body req = InputsBody flat)
    \<and> (store userId = None \<longrightarrow>
          built = [\<lparr>role = System, content = prompt\<rparr>, \<lparr>role = User, content = userMessage\<rparr>]
          \<and> chat = [\<lparr>role = User, content = prompt\<rparr>, \<lparr>role = User, content = userMessage\<rparr>]
          \<and> flat = of_ascii ''System: '' @ prompt @ [0xA] @ of_ascii ''User: '' @ userMessage
                    @ [0xA] @ of_ascii ''Assistant:'')"
proof -
  have hk: "has_key cfg" using assms(1,2) by (simp add: has_key_def)
  note g = getAIResponse_enabled[OF hk assms(3), of store userId userMessage net, folded built_def]
  have g3: "getAIResponse cfg store userId userMessage net =
           (Some (fst (callHuggingFace cfg built net)),
            fst (snd (getAIResponse cfg store userId userMessage net)),
            snd (callHuggingFace cfg built net))"
    using g by (cases "getAIResponse cfg store userId userMessage net") simp
  have ne0: "built \<noteq> []" by (simp add: built_def)
  have w: "map on_wire built = chat"
    by (simp add: built_def chat_def on_wire_def)
  have f: "flat_prompt built = flat"
    by (simp add: built_def flat_def flat_prompt_def prompt_line_def)
  have r: "snd (callHuggingFace cfg built net)
      = traverse key built net 0 (candidates (modelsToTry cfg))"
    by (rule callHuggingFace_requests[OF assms(1,2)])
  obtain cs where cs: "candidates (modelsToTry cfg) = (0, HF_MODEL cfg, Router_v1) # cs"
    using candidates_hd by blast
  have ne: "snd (callHuggingFace cfg built net) \<noteq> []"
    unfolding r by (rule traverse_nonempty[OF candidates_nonempty])
  have h: "hd (snd (callHuggingFace cfg built net))
         = \<lparr>url = of_ascii ''https://router.huggingface.co/v1/chat/completions'',
            authorization = of_ascii ''Bearer '' @ key,
            body = ChatBody (HF_MODEL cfg) chat\<rparr>"
    unfolding r cs traverse_hd
    by (simp add: make_request_def endpoint_url_def endpoint_body_def relabel_on_wire w)
  have a: "\<exists>model. body req = ChatBody model chat
                 \<or> body req = InferenceBody model flat
                 \<or> body req = InputsBody flat"
    if "req \<in> set (snd (callHuggingFace cfg built net))" for req
  proof -
    from that have "req \<in> set (traverse key built net 0 (candidates (modelsToTry cfg)))"
      by (simp add: r)
    from traverse_requests[OF this]
    obtain c :: "nat \<times> jstring \<times> endpoint"
      where "req = make_request key built (fst (snd c)) (snd (snd c))"
      by blast
    then show ?thesis
      using make_request_body[OF ne0, of key "fst (snd c)" "snd (snd c)"]
      by (cases "snd (snd c)") (auto simp: w f)
  qed
  have e: "store userId = None \<longrightarrow>
          built = [\<lparr>role = System, content = prompt\<rparr>, \<lparr>role = User, content = userMessage\<rparr>]
          \<and> chat = [\<lparr>role = User, content = prompt\<rparr>, \<lparr>role = User, content = userMessage\<rparr>]
          \<and> flat = of_ascii ''System: '' @ prompt @ [0xA] @ of_ascii ''User: '' @ userMessage
                    @ [0xA] @ of_ascii ''Assistant:''"
    by (simp add: built_def chat_def flat_def history_of_def)
  show ?thesis
    using g3 ne h a e by blast
qed

text \<open>The first request of a user with one exchange behind it.\<close>

theorem messages_sent_witness:
  "hd (snd (callHuggingFace example_config
              [\<lparr>role = System, content = of_ascii ''You are a bot''\<rparr>,
               \<lparr>role = User, content = of_ascii ''q1''\<rparr>,
               \<lparr>role = Assistant, content = of_ascii ''a1''\<rparr>,
               \<lparr>role = User, content = of_ascii ''hello''\<rparr>]
              net_503_404_ok))
     = \<lparr>url = of_ascii ''https://router.huggingface.co/v1/chat/completions'',
        authorization = of_ascii ''Bearer hf_token'',
        body = ChatBody (of_ascii ''acme/model-a'')
                 [\<lparr>role = User, content = of_ascii ''You are a bot''\<rparr>,
                  \<lparr>role = User, content = of_ascii ''q1''\<rparr>,
                  \<lparr>role = Assistant, content = of_ascii ''a1''\<rparr>,
                  \<lparr>role = User, content = of_ascii ''hello''\<rparr>]\<rparr>
   \<and> fst (getAIResponse example_config store_with_history 7 (of_ascii ''hello'') net_503_404_ok)
     = Some (fst (callHuggingFace example_config
              [\<lparr>role = System, content = of_ascii ''You are a bot''\<rparr>,
               \<lparr>role = User, content = of_ascii ''q1''\<rparr>,
               \<lparr>role = Assistant, content = of_ascii ''a1''\<rparr>,
               \<lparr>role = User, content = of_ascii ''hello''\<rparr>]
              net_503_404_ok))"
proof -
  have key: "HF_API_KEY example_config = Some (of_ascii ''hf_token'')" "of_ascii ''hf_token'' \<noteq> []"
    by (simp_all add: example_config_def of_ascii_def)
  have p: "getSystemPrompt example_config = Some (of_ascii ''You are a bot'')"
    by (simp add: example_config_def)
  have m: "HF_MODEL example_config = of_ascii ''acme/model-a''"
    by (simp add: example_config_def)
  have h: "history_of store_with_history 7
      = [\<lparr>role = User, content = of_ascii ''q1''\<rparr>, \<lparr>role = Assistant, content = of_ascii ''a1''\<rparr>]"
    by (simp add: history_of_def store_with_history_def turn_pair_def)
  have b: "of_ascii ''Bearer '' @ of_ascii ''hf_token'' = of_ascii ''Bearer hf_token''"
    by (simp add: of_ascii_def)
  note t = messages_sent [OF key p, where store = store_with_history and userId = 7
        and userMessage = "of_ascii ''hello''" and net = net_503_404_ok, unfolded h m b]
  from t have 1: "hd (snd (callHuggingFace example_config
              (\<lparr>role = System, content = of_ascii ''You are a bot''\<rparr> #
               [\<lparr>role = User, content = of_ascii ''q1''\<rparr>,
               \<lparr>role = Assistant, content = of_ascii ''a1''\<rparr>] @
               [\<lparr>role = User, content = of_ascii ''hello''\<rparr>])
              net_503_404_ok))
     = \<lparr>url = of_ascii ''https://router.huggingface.co/v1/chat/completions'',
        authorization = of_ascii ''Bearer hf_token'',
        body = ChatBody (of_ascii ''acme/model-a'')
                 (\<lparr>role = User, content = of_ascii ''You are a bot''\<rparr> #
                  map on_wire [\<lparr>role = User, content = of_ascii ''q1''\<rparr>,
                  \<lparr>role = Assistant, content = of_ascii ''a1''\<rparr>] @
                  [\<lparr>role = User, content = of_ascii ''hello''\<rparr>])\<rparr>"
    by blast
  from t have 2: "getAIResponse example_config store_with_history 7 (of_ascii ''hello'') net_503_404_ok
     = (Some (fst (callHuggingFace example_config
              (\<lparr>role = System, content = of_ascii ''You are a bot''\<rparr> #
               [\<lparr>role = User, content = of_ascii ''q1''\<rparr>,
               \<lparr>role = Assistant, content = of_ascii ''a1''\<rparr>] @
               [\<lparr>role = User, content = of_ascii ''hello''\<rparr>])
              net_503_404_ok)),
        fst (snd (getAIResponse example_config store_with_history 7 (of_ascii ''hello'') net_503_404_ok)),
        snd (callHuggingFace example_config
              (\<lparr>role = System, content = of_ascii ''You are a bot''\<rparr> #
               [\<lparr>role = User, content = of_ascii ''q1''\<rparr>,
               \<lparr>role = Assistant, content = of_ascii ''a1''\<rparr>] @
               [\<lparr>role = User, content = of_ascii ''hello''\<rparr>])
              net_503_404_ok))"
    by blast
  have 3: "fst (getAIResponse example_config store_with_history 7 (of_ascii ''hello'') net_503_404_ok)
     = Some (fst (callHuggingFace example_config
              (\<lparr>role = System, content = of_ascii ''You are a bot''\<rparr> #
               [\<lparr>role = User, content = of_ascii ''q1''\<rparr>,
               \<lparr>role = Assistant, content = of_ascii ''a1''\<rparr>] @
               [\<lparr>role = User, content = of_ascii ''hello''\<rparr>])
              net_503_404_ok))"
    by (subst 2) simp
  show ?thesis
    using 1 3 by (simp add: on_wire_def)
qed

subsection \<open>C6: the first success wins\<close>

text \<open>
  Claim C6. A request that is answered 2xx is the last request of the call. When the
  first candidate is answered 503, the second 404 and the third 2xx with a chat
  completion whose content is a non-empty string, the result is a success with the
  trimmed content, and these three requests are all the requests of the call.
\<close>

theorem first_success_stops_traversal:
  assumes "HF_API_KEY cfg = Some key" and "key \<noteq> []"
  shows "(\<forall>k < length (snd (callHuggingFace cfg messages net)).
            is_2xx (net k (snd (callHuggingFace cfg messages net) ! k)) \<longrightarrow>
            Suc k = length (snd (callHuggingFace cfg messages net)))
    \<and> (net 0 (make_request key messages (HF_MODEL cfg) Router_v1) = Http r1 \<and> status r1 = 503
       \<and> net 1 (make_request key messages (HF_MODEL cfg) Router_v2) = Http r2 \<and> status r2 = 404
       \<and> net 2 (make_request key messages (HF_MODEL cfg) Router_v3) = Http r3 \<and> ok r3
       \<and> body_json r3 = Some data
       \<and> field data ''choices'' = Some (JArr (choice # rest))
       \<and> field choice ''message'' = Some msg
       \<and> field msg ''content'' = Some (JStr t) \<and> t \<noteq> []
       \<longrightarrow> callHuggingFace cfg messages net =
             (succeeded (trim t),
              [make_request key messages (HF_MODEL cfg) Router_v1,
               make_request key messages (HF_MODEL cfg) Router_v2,
               make_request key messages (HF_MODEL cfg) Router_v3]))"
proof (intro conjI allI impI)
  fix k
  assume "k < length (snd (callHuggingFace cfg messages net))"
    and "is_2xx (net k (snd (callHuggingFace cfg messages net) ! k))"
  then show "Suc k = length (snd (callHuggingFace cfg messages net))"
    unfolding callHuggingFace_requests[OF assms]
    using traverse_stops[of k key messages net 0 "candidates (modelsToTry cfg)"] by simp
next
  assume "net 0 (make_request key messages (HF_MODEL cfg) Router_v1) = Http r1 \<and> status r1 = 503
       \<and> net 1 (make_request key messages (HF_MODEL cfg) Router_v2) = Http r2 \<and> status r2 = 404
       \<and> net 2 (make_request key messages (HF_MODEL cfg) Router_v3) = Http r3 \<and> ok r3
       \<and> body_json r3 = Some data
       \<and> field data ''choices'' = Some (JArr (choice # rest))
       \<and> field choice ''message'' = Some msg
       \<and> field msg ''content'' = Some (JStr t) \<and> t \<noteq> []"
  then show "callHuggingFace cfg messages net =
             (succeeded (trim t),
              [make_request key messages (HF_MODEL cfg) Router_v1,
               make_request key messages (HF_MODEL cfg) Router_v2,
               make_request key messages (HF_MODEL cfg) Router_v3])"
    using scenario_503_404_2xx[OF assms, of net messages r1 r2 r3 data choice rest msg t]
    by blast
qed

text \<open>The scenario on a concrete network.\<close>

theorem first_success_stops_traversal_witness:
  "callHuggingFace example_config [] net_503_404_ok =
     (succeeded greeting,
      [make_request (of_ascii ''hf_token'') [] (of_ascii ''acme/model-a'') Router_v1,
       make_request (of_ascii ''hf_token'') [] (of_ascii ''acme/model-a'') Router_v2,
       make_request (of_ascii ''hf_token'') [] (of_ascii ''acme/model-a'') Router_v3])
   \<and> is_2xx (net_503_404_ok 2 (snd (callHuggingFace example_config [] net_503_404_ok) ! 2))
   \<and> Suc 2 = length (snd (callHuggingFace example_config [] net_503_404_ok))"
proof -
  have key: "HF_API_KEY example_config = Some (of_ascii ''hf_token'')" "of_ascii ''hf_token'' \<noteq> []"
    by (simp_all add: example_config_def of_ascii_def)
  have m: "HF_MODEL example_config = of_ascii ''acme/model-a''"
    by (simp add: example_config_def)
  note t = first_success_stops_traversal [OF key, of "[]" net_503_404_ok
      "\<lparr>status = 503, statusText = [], body_text = of_ascii ''loading'', body_json = None\<rparr>"
      "\<lparr>status = 404, statusText = [], body_text = of_ascii ''Not Found'', body_json = None\<rparr>"
      "\<lparr>status = 200, statusText = [], body_text = [], body_json = Some (chat_completion greeting)\<rparr>"
      "chat_completion greeting"
      "JObj [(of_ascii ''message'',
                         JObj [(of_ascii ''role'', JStr (of_ascii ''assistant'')),
                               (of_ascii ''content'', JStr greeting)])]"
      "[]"
      "JObj [(of_ascii ''role'', JStr (of_ascii ''assistant'')),
                               (of_ascii ''content'', JStr greeting)]"
      greeting]
  have c: "callHuggingFace example_config [] net_503_404_ok =
     (succeeded greeting,
      [make_request (of_ascii ''hf_token'') [] (of_ascii ''acme/model-a'') Router_v1,
       make_request (of_ascii ''hf_token'') [] (of_ascii ''acme/model-a'') Router_v2,
       make_request (of_ascii ''hf_token'') [] (of_ascii ''acme/model-a'') Router_v3])"
    using t[THEN conjunct2]
    by (simp add: m net_503_404_ok_def http_response_def ok_def chat_completion_def
        greeting_def of_ascii_def trim_def is_ws_def)
  have ok2: "is_2xx (net_503_404_ok 2 (snd (callHuggingFace example_config [] net_503_404_ok) ! 2))"
    by (simp add: c is_2xx_def net_503_404_ok_def http_response_def ok_def)
  have "2 < length (snd (callHuggingFace example_config [] net_503_404_ok))"
    by (simp add: c)
  with t[THEN conjunct1] ok2
  have "Suc 2 = length (snd (callHuggingFace example_config [] net_503_404_ok))"
    by blast
  with c ok2 show ?thesis by blast
qed

subsection \<open>C7: model-major traversal\<close>

text \<open>
  Claim C7 as stated fails when a model occurs twice in the model list, as the default
  \<^verbatim>\<open>HF_MODEL\<close> does: after the answer that reports it unsupported, the same model is
  requested again on all three endpoints of its second entry. The traversal that skips
  by model would go on to the next model.
\<close>

theorem repeated_model_counterexample:
  "unsupported (net_unsupported_503_404_ok 0
      (make_request (of_ascii ''hf_token'') []
         (of_ascii ''meta-llama/Meta-Llama-3-8B-Instruct'') Router_v1))
   \<and> snd (callHuggingFace default_config [] net_unsupported_503_404_ok)
     = [make_request (of_ascii ''hf_token'') []
          (of_ascii ''meta-llama/Meta-Llama-3-8B-Instruct'') Router_v1,
        make_request (of_ascii ''hf_token'') []
          (of_ascii ''meta-llama/Meta-Llama-3-8B-Instruct'') Router_v1,
        make_request (of_ascii ''hf_token'') []
          (of_ascii ''meta-llama/Meta-Llama-3-8B-Instruct'') Router_v2,
        make_request (of_ascii ''hf_token'') []
          (of_ascii ''meta-llama/Meta-Llama-3-8B-Instruct'') Router_v3]
   \<and> traverse_by_model (of_ascii ''hf_token'') [] net_unsupported_503_404_ok 0
        (candidates (modelsToTry default_config))
     = [make_request (of_ascii ''hf_token'') []
          (of_ascii ''meta-llama/Meta-Llama-3-8B-Instruct'') Router_v1,
        make_request (of_ascii ''hf_token'') []
          (of_ascii ''mistralai/Mistral-7B-Instruct-v0.2'') Router_v1,
        make_request (of_ascii ''hf_token'') []
          (of_ascii ''mistralai/Mistral-7B-Instruct-v0.2'') Router_v2,
        make_request (of_ascii ''hf_token'') []
          (of_ascii ''mistralai/Mistral-7B-Instruct-v0.2'') Router_v3]"
proof -
  have u: "unsupported (net_unsupported_503_404_ok 0 req)" for req
    by (simp add: unsupported_def net_unsupported_503_404_ok_def http_response_def
        model_not_supported_def model_not_supported_payload_def of_ascii_def)
  have c: "snd (callHuggingFace default_config [] net_unsupported_503_404_ok)
     = [make_request (of_ascii ''hf_token'') []
          (of_ascii ''meta-llama/Meta-Llama-3-8B-Instruct'') Router_v1,
        make_request (of_ascii ''hf_token'') []
          (of_ascii ''meta-llama/Meta-Llama-3-8B-Instruct'') Router_v1,
        make_request (of_ascii ''hf_token'') []
          (of_ascii ''meta-llama/Meta-Llama-3-8B-Instruct'') Router_v2,
        make_request (of_ascii ''hf_token'') []
          (of_ascii ''meta-llama/Meta-Llama-3-8B-Instruct'') Router_v3]"
    by (simp add: callHuggingFace_def default_config_def example_config_def modelsToTry_def
        endpoints_def attempt_def init_state_def net_unsupported_503_404_ok_def
        http_response_def ok_def model_not_supported_def model_not_supported_payload_def
        Let_def of_ascii_def)
  have t: "traverse_by_model (of_ascii ''hf_token'') [] net_unsupported_503_404_ok 0
        (candidates (modelsToTry default_config))
     = [make_request (of_ascii ''hf_token'') []
          (of_ascii ''meta-llama/Meta-Llama-3-8B-Instruct'') Router_v1,
        make_request (of_ascii ''hf_token'') []
          (of_ascii ''mistralai/Mistral-7B-Instruct-v0.2'') Router_v1,
        make_request (of_ascii ''hf_token'') []
          (of_ascii ''mistralai/Mistral-7B-Instruct-v0.2'') Router_v2,
        make_request (of_ascii ''hf_token'') []
          (of_ascii ''mistralai/Mistral-7B-Instruct-v0.2'') Router_v3]"
    by (simp add: candidates_def modelsToTry_def endpoints_def enumerate_eq_zip upt_rec
        default_config_def example_config_def Let_def is_2xx_def unsupported_def
        net_unsupported_503_404_ok_def http_response_def ok_def model_not_supported_def
        model_not_supported_payload_def of_ascii_def)
  show ?thesis using u c t by blast
qed

text \<open>
  Claim C7, amended. The requests of a call are those of the traversal of the candidate
  matrix in model-major order, in which a 400 with the error code
  \<^verbatim>\<open>model_not_supported\<close> drops the remaining endpoints of that entry of the model
  list: when the first request is answered so, the second request is the first
  endpoint of the second entry. When no model occurs twice in the model list, these
  are the requests of the traversal that drops the remaining endpoints of that model.
\<close>

theorem traversal_model_major:
  assumes "HF_API_KEY cfg = Some key" and "key \<noteq> []"
  shows "snd (callHuggingFace cfg messages net)
           = traverse key messages net 0 (candidates (modelsToTry cfg))
    \<and> (unsupported (net 0 (make_request key messages (HF_MODEL cfg) Router_v1)) \<longrightarrow>
         take 2 (snd (callHuggingFace cfg messages net))
           = [make_request key messages (HF_MODEL cfg) Router_v1,
              make_request key messages (modelsToTry cfg ! 1) Router_v1])
    \<and> (distinct (modelsToTry cfg) \<longrightarrow>
         snd (callHuggingFace cfg messages net)
           = traverse_by_model key messages net 0 (candidates (modelsToTry cfg)))"
proof -
  have c: "candidates (modelsToTry cfg) =
      (0, HF_MODEL cfg, Router_v1) # (0, HF_MODEL cfg, Router_v2) # (0, HF_MODEL cfg, Router_v3)
      # (1, modelsToTry cfg ! 1, Router_v1) # drop 4 (candidates (modelsToTry cfg))"
    by (simp add: candidates_def modelsToTry_def endpoints_def enumerate_eq_zip upt_rec)
  have n2: "unsupported out \<Longrightarrow> \<not> is_2xx out" for out
    by (auto simp: unsupported_def is_2xx_def ok_def split: outcome.splits)
  have "unsupported (net 0 (make_request key messages (HF_MODEL cfg) Router_v1)) \<Longrightarrow>
      take 2 (traverse key messages net 0 (candidates (modelsToTry cfg)))
       = [make_request key messages (HF_MODEL cfg) Router_v1,
          make_request key messages (modelsToTry cfg ! 1) Router_v1]"
    by (subst c, subst c) (simp add: Let_def n2 numeral_2_eq_2)
  moreover have "distinct (modelsToTry cfg) \<Longrightarrow>
      traverse key messages net 0 (candidates (modelsToTry cfg))
        = traverse_by_model key messages net 0 (candidates (modelsToTry cfg))"
    by (rule traverse_by_model_eq[OF candidates_entry_is_model])
  ultimately show ?thesis
    using callHuggingFace_requests[OF assms, of messages net] by simp
qed

text \<open>
  A model list without a repeated model, an unsupported first model, then a success:
  two requests, by entry and by model.
\<close>

theorem traversal_model_major_witness:
  "distinct (modelsToTry example_config)
   \<and> unsupported (net_unsupported_then_ok 0
       (make_request (of_ascii ''hf_token'') [] (of_ascii ''acme/model-a'') Router_v1))
   \<and> snd (callHuggingFace example_config [] net_unsupported_then_ok)
     = [make_request (of_ascii ''hf_token'') [] (of_ascii ''acme/model-a'') Router_v1,
        make_request (of_ascii ''hf_token'') []
          (of_ascii ''meta-llama/Meta-Llama-3-8B-Instruct'') Router_v1]
   \<and> traverse_by_model (of_ascii ''hf_token'') [] net_unsupported_then_ok 0
        (candidates (modelsToTry example_config))
     = [make_request (of_ascii ''hf_token'') [] (of_ascii ''acme/model-a'') Router_v1,
        make_request (of_ascii ''hf_token'') []
          (of_ascii ''meta-llama/Meta-Llama-3-8B-Instruct'') Router_v1]"
proof -
  have key: "HF_API_KEY example_config = Some (of_ascii ''hf_token'')" "of_ascii ''hf_token'' \<noteq> []"
    by (simp_all add: example_config_def of_ascii_def)
  have d: "distinct (modelsToTry example_config)"
    by (simp add: modelsToTry_def example_config_def of_ascii_def)
  have u: "unsupported (net_unsupported_then_ok 0
       (make_request (of_ascii ''hf_token'') [] (of_ascii ''acme/model-a'') Router_v1))"
    by (simp add: unsupported_def net_unsupported_then_ok_def http_response_def
        model_not_supported_def model_not_supported_payload_def of_ascii_def)
  have c: "candidates (modelsToTry example_config) =
      (0, of_ascii ''acme/model-a'', Router_v1) # (0, of_ascii ''acme/model-a'', Router_v2)
      # (0, of_ascii ''acme/model-a'', Router_v3)
      # (1, of_ascii ''meta-llama/Meta-Llama-3-8B-Instruct'', Router_v1)
      # drop 4 (candidates (modelsToTry example_config))"
    by (simp add: candidates_def modelsToTry_def endpoints_def enumerate_eq_zip upt_rec
        example_config_def)
  have t: "traverse (of_ascii ''hf_token'') [] net_unsupported_then_ok 0
          (candidates (modelsToTry example_config))
     = [make_request (of_ascii ''hf_token'') [] (of_ascii ''acme/model-a'') Router_v1,
        make_request (of_ascii ''hf_token'') []
          (of_ascii ''meta-llama/Meta-Llama-3-8B-Instruct'') Router_v1]"
    by (subst c)
      (simp add: Let_def is_2xx_def unsupported_def net_unsupported_then_ok_def http_response_def
        ok_def model_not_supported_def model_not_supported_payload_def of_ascii_def)
  note tm = traversal_model_major [OF key, of "[]" net_unsupported_then_ok]
  from tm t have 1: "snd (callHuggingFace example_config [] net_unsupported_then_ok)
     = [make_request (of_ascii ''hf_token'') [] (of_ascii ''acme/model-a'') Router_v1,
        make_request (of_ascii ''hf_token'') []
          (of_ascii ''meta-llama/Meta-Llama-3-8B-Instruct'') Router_v1]"
    by simp
  from tm d have "snd (callHuggingFace example_config [] net_unsupported_then_ok)
     = traverse_by_model (of_ascii ''hf_token'') [] net_unsupported_then_ok 0
        (candidates (modelsToTry example_config))"
    by blast
  with 1 d u show ?thesis by simp
qed

subsection \<open>C8: an exhausted matrix\<close>

text \<open>
  Claim C8 as stated fails when no request reaches HTTP: all eighteen candidates are
  tried, there is no response to classify, and the error is the message of the last
  network Error.
\<close>

theorem all_requests_fail_counterexample:
  "filter is_2xx (outcomes net_down (snd (callHuggingFace example_config [] net_down))) = []
   \<and> last_http (outcomes net_down (snd (callHuggingFace example_config [] net_down))) = None
   \<and> length (snd (callHuggingFace example_config [] net_down)) = 18
   \<and> fst (callHuggingFace example_config [] net_down)
       = failed (Some (JStr (of_ascii ''fetch failed''))) api_error"
proof -
  have o: "outcomes net_down reqs = replicate (length reqs) (NetworkError (of_ascii ''fetch failed''))"
    for reqs
    by (simp add: outcomes_def net_down_def map_replicate_const)
  have l: "first_http (replicate n (NetworkError e)) = None" for n e
    by (induction n) simp_all
  have f: "filter is_2xx (replicate n (NetworkError e)) = []" for n e
    by (simp add: is_2xx_def)
  have c: "length (snd (callHuggingFace example_config [] net_down)) = 18
    \<and> fst (callHuggingFace example_config [] net_down)
       = failed (Some (JStr (of_ascii ''fetch failed''))) api_error"
    by (simp add: callHuggingFace_def example_config_def modelsToTry_def endpoints_def
        attempt_def init_state_def after_loops_def net_down_def Let_def of_ascii_def)
  show ?thesis
    using c by (simp add: o l f last_http_def)
qed

text \<open>
  Claim C8, amended. When no request of the call is answered 2xx and some request is
  answered at all, the result is classified from the most recent response: a 503 gives
  \<open>provider_unavailable\<close> with the warming message, anything else gives \<open>api_error\<close>
  whose error is the first truthy one of the error field of the body, its message
  field, the body text and the generic text. When no request is answered, the result
  is \<open>api_error\<close> with the message of the last network Error, or with the text for an
  unknown error when that message is empty.
\<close>

theorem exhausted_classification:
  assumes key: "HF_API_KEY cfg = Some key" "key \<noteq> []"
    and no2: "\<forall>out \<in> set (outcomes net (snd (callHuggingFace cfg messages net))). \<not> is_2xx out"
  shows "case last_http (outcomes net (snd (callHuggingFace cfg messages net))) of
           Some r \<Rightarrow> fst (callHuggingFace cfg messages net) = classify_exhausted r
         | None \<Rightarrow>
             (\<exists>e. last (outcomes net (snd (callHuggingFace cfg messages net))) = NetworkError e
                \<and> fst (callHuggingFace cfg messages net)
                    = failed (Some (JStr (if e \<noteq> [] then e else msg_unknown_hf))) api_error)"
proof -
  define st where "st = model_loop key messages net (modelsToTry cfg) init_state"
  have c: "callHuggingFace cfg messages net =
      (case after_loops st of
         Inl e \<Rightarrow> failed (Some (JStr (if e \<noteq> [] then e else msg_unknown_hf))) api_error
       | Inr res \<Rightarrow> res, requests st)"
    using key by (simp add: callHuggingFace_def st_def Let_def)
  have inv: "loop_inv net st"
    unfolding st_def by (rule model_loop_inv[OF loop_inv_init])
  have ne: "requests st \<noteq> []"
    using callHuggingFace_requests[OF key, of messages net] c
      traverse_nonempty[OF candidates_nonempty] by simp
  then have one: "outcomes net (requests st) \<noteq> []"
    by (simp add: outcomes_def)
  show ?thesis
  proof (cases "response st")
    case None
    then obtain out outs where r: "rev (outcomes net (requests st)) = out # outs"
      using one by (cases "rev (outcomes net (requests st))") auto
    then have l: "last (outcomes net (requests st)) = out"
      by (metis last_rev hd_rev list.sel(1) rev_rev_ident)
    from inv None r obtain e where e: "lastError st = Some e" "out = NetworkError e"
      by (auto simp: loop_inv_def)
    from inv None have "last_http (outcomes net (requests st)) = None"
      by (simp add: loop_inv_def)
    with None e l show ?thesis
      by (simp add: c after_loops_def)
  next
    case (Some r)
    with inv have lh: "last_http (outcomes net (requests st)) = Some r"
      and lt: "lastResponseText st = body_text r"
      by (simp_all add: loop_inv_def)
    have "\<not> ok r"
      using last_http_mem[OF lh] no2 by (auto simp: c is_2xx_def)
    with Some lh lt show ?thesis
      by (simp add: c after_loops_def classify_exhausted_def errorMessage_priority)
  qed
qed

text \<open>Every candidate answered 503.\<close>

theorem exhausted_classification_witness:
  "filter is_2xx (outcomes net_warming (snd (callHuggingFace example_config [] net_warming))) = []
   \<and> fst (callHuggingFace example_config [] net_warming)
       = failed (Some (JStr msg_warming)) provider_unavailable"
proof -
  have key: "HF_API_KEY example_config = Some (of_ascii ''hf_token'')" "of_ascii ''hf_token'' \<noteq> []"
    by (simp_all add: example_config_def of_ascii_def)
  let ?r = "\<lparr>status = 503, statusText = [], body_text = of_ascii ''loading'', body_json = None\<rparr>"
  have o: "outcomes net_warming reqs = replicate (length reqs) (Http ?r)" for reqs
    by (simp add: outcomes_def net_warming_def http_response_def map_replicate_const)
  have no: "\<forall>out \<in> set (outcomes net_warming (snd (callHuggingFace example_config [] net_warming))).
      \<not> is_2xx out"
    by (simp add: o is_2xx_def ok_def)
  have ne: "snd (callHuggingFace example_config [] net_warming) \<noteq> []"
    unfolding callHuggingFace_requests[OF key]
    by (rule traverse_nonempty[OF candidates_nonempty])
  then obtain n where n: "length (snd (callHuggingFace example_config [] net_warming)) = Suc n"
    by (cases "snd (callHuggingFace example_config [] net_warming)") auto
  have l: "last_http (outcomes net_warming (snd (callHuggingFace example_config [] net_warming)))
      = Some ?r"
    by (simp only: o n last_http_def rev_replicate) simp
  have f: "filter is_2xx (outcomes net_warming (snd (callHuggingFace example_config [] net_warming)))
      = []"
    by (simp add: o is_2xx_def ok_def)
  show ?thesis
    using exhausted_classification [OF key no] f by (simp add: l classify_exhausted_def)
qed

subsection \<open>C9: extraction of the generated text\<close>

text \<open>
  Claim C9 as stated fails: the single-object shape returns a truthy value of any type,
  here a number; the array shape also reads the field \<^verbatim>\<open>content\<close>; the array shape
  returns the first field that is present even when it is the empty string; and a
  first choice that is \<^verbatim>\<open>null\<close> makes extraction throw.
\<close>

theorem extraction_counterexample:
  "extractGeneratedText (JObj [(of_ascii ''generated_text'', JNum 5)]) = Inr (Some (JNum 5))
   \<and> extractGeneratedText (JArr [JObj [(of_ascii ''content'', JStr (of_ascii ''abc''))]])
       = Inr (Some (JStr (of_ascii ''abc'')))
   \<and> extractGeneratedText
        (JArr [JObj [(of_ascii ''generated_text'', JStr []),
                     (of_ascii ''output_text'', JStr (of_ascii ''abc''))]])
       = Inr (Some (JStr []))
   \<and> extractGeneratedText (JObj [(of_ascii ''choices'', JArr [JNull])])
       = Inl (type_error_null ''message'')"
  by (simp add: extractGeneratedText_def from_choices_def from_legacy_def
      from_array_or_string_def is_object_def truthy_opt_def of_ascii_def)

text \<open>
  Claim C9, amended. On a body whose first choice is not \<^verbatim>\<open>null\<close> and in which no
  candidate of the choices shape or of the single-object shape is a truthy value other
  than a string, extraction returns the first candidate that counts, in the order:
  content of the message of the first choice, text of the first choice,
  \<^verbatim>\<open>generated_text\<close>, \<^verbatim>\<open>output_text\<close>, \<^verbatim>\<open>text\<close> of the body (each counting when it
  is a non-empty string), the first element of an array (itself when it is a non-empty
  string, or for an object its first field among \<^verbatim>\<open>generated_text\<close>,
  \<^verbatim>\<open>output_text\<close>, \<^verbatim>\<open>text\<close>, \<^verbatim>\<open>content\<close> that is not \<^verbatim>\<open>null\<close>, when that is a
  string), the body itself when it is a non-empty string; and \<^verbatim>\<open>null\<close> when there
  is none. When the most recent response of a call is 2xx with such a body, the result
  is a success with the trimmed text when the text extracted is not empty after
  trimming, and an \<open>api_error\<close> with the empty-response text when nothing or the empty
  string is extracted; so it is for the body \<^verbatim>\<open>{}\<close>.
\<close>

theorem extraction_in_order:
  "(string_valued data \<longrightarrow>
      extractGeneratedText data = Inr (map_option JStr (extract_in_order data)))
   \<and> (HF_API_KEY cfg = Some key \<and> key \<noteq> []
       \<and> last_http (outcomes net (snd (callHuggingFace cfg messages net))) = Some r
       \<and> ok r \<and> body_json r = Some data \<and> string_valued data
       \<and> extract_in_order data = Some g \<and> trim g \<noteq> [] \<longrightarrow>
       fst (callHuggingFace cfg messages net) = succeeded (trim g))
   \<and> (HF_API_KEY cfg = Some key \<and> key \<noteq> []
       \<and> last_http (outcomes net (snd (callHuggingFace cfg messages net))) = Some r
       \<and> ok r \<and> body_json r = Some data \<and> string_valued data
       \<and> (extract_in_order data = None \<or> extract_in_order data = Some []) \<longrightarrow>
       fst (callHuggingFace cfg messages net)
         = failed (Some (JStr msg_empty_response)) api_error)
   \<and> (HF_API_KEY cfg = Some key \<and> key \<noteq> []
       \<and> last_http (outcomes net (snd (callHuggingFace cfg messages net))) = Some r
       \<and> ok r \<and> body_json r = Some (JObj []) \<longrightarrow>
       fst (callHuggingFace cfg messages net)
         = failed (Some (JStr msg_empty_response)) api_error)"
proof (intro conjI impI)
  assume "string_valued data"
  then show "extractGeneratedText data = Inr (map_option JStr (extract_in_order data))"
    by (rule extract_string_valued)
next
  assume a: "HF_API_KEY cfg = Some key \<and> key \<noteq> []
       \<and> last_http (outcomes net (snd (callHuggingFace cfg messages net))) = Some r
       \<and> ok r \<and> body_json r = Some data \<and> string_valued data
       \<and> extract_in_order data = Some g \<and> trim g \<noteq> []"
  then have e: "extractGeneratedText data = Inr (Some (JStr g))"
    by (simp add: extract_string_valued)
  from a have ne: "g \<noteq> []" by (auto simp: trim_def)
  from a have "fst (callHuggingFace cfg messages net) =
     (case from_data data of
        Inl e \<Rightarrow> failed (Some (JStr (if e \<noteq> [] then e else msg_unknown_hf))) api_error
      | Inr res \<Rightarrow> res)"
    using callHuggingFace_on_2xx[of cfg key net messages r] by simp
  then show "fst (callHuggingFace cfg messages net) = succeeded (trim g)"
    using ne by (simp add: from_data_def e)
next
  assume a: "HF_API_KEY cfg = Some key \<and> key \<noteq> []
       \<and> last_http (outcomes net (snd (callHuggingFace cfg messages net))) = Some r
       \<and> ok r \<and> body_json r = Some data \<and> string_valued data
       \<and> (extract_in_order data = None \<or> extract_in_order data = Some [])"
  then have e: "extractGeneratedText data = Inr None \<or> extractGeneratedText data = Inr (Some (JStr []))"
    by (auto simp: extract_string_valued)
  from a have "fst (callHuggingFace cfg messages net) =
     (case from_data data of
        Inl e \<Rightarrow> failed (Some (JStr (if e \<noteq> [] then e else msg_unknown_hf))) api_error
      | Inr res \<Rightarrow> res)"
    using callHuggingFace_on_2xx[of cfg key net messages r] by simp
  then show "fst (callHuggingFace cfg messages net)
         = failed (Some (JStr msg_empty_response)) api_error"
    using e by (auto simp: from_data_def)
next
  assume a: "HF_API_KEY cfg = Some key \<and> key \<noteq> []
       \<and> last_http (outcomes net (snd (callHuggingFace cfg messages net))) = Some r
       \<and> ok r \<and> body_json r = Some (JObj [])"
  have "from_data (JObj []) = Inr (failed (Some (JStr msg_empty_response)) api_error)"
    by (simp add: from_data_def extractGeneratedText_def from_choices_def from_legacy_def
        from_array_or_string_def is_object_def truthy_opt_def)
  with a show "fst (callHuggingFace cfg messages net)
         = failed (Some (JStr msg_empty_response)) api_error"
    using callHuggingFace_on_2xx[of cfg key net messages r] by simp
qed

text \<open>
  A call answered with a chat completion, and a call answered with the body \<^verbatim>\<open>{}\<close>.
\<close>

theorem extraction_in_order_witness:
  "string_valued (chat_completion greeting)
   \<and> extractGeneratedText (chat_completion greeting) = Inr (Some (JStr greeting))
   \<and> fst (callHuggingFace example_config [] (net_reply greeting)) = succeeded greeting
   \<and> string_valued (JObj [])
   \<and> fst (callHuggingFace example_config [] net_empty_object)
       = failed (Some (JStr msg_empty_response)) api_error"
proof -
  have key: "HF_API_KEY example_config = Some (of_ascii ''hf_token'')" "of_ascii ''hf_token'' \<noteq> []"
    by (simp_all add: example_config_def of_ascii_def)
  let ?e = "\<lparr>status = 200, statusText = [], body_text = of_ascii ''{}'', body_json = Some (JObj [])\<rparr>"
  let ?c = "\<lparr>status = 200, statusText = [], body_text = [],
             body_json = Some (chat_completion greeting)\<rparr>"
  have ne: "snd (callHuggingFace example_config [] net) \<noteq> []" for net
    unfolding callHuggingFace_requests[OF key]
    by (rule traverse_nonempty[OF candidates_nonempty])
  have le: "last_http (outcomes net_empty_object
      (snd (callHuggingFace example_config [] net_empty_object))) = Some ?e"
    by (rule last_http_constant[OF _ ne]) (simp add: net_empty_object_def http_response_def)
  have lc: "last_http (outcomes (net_reply greeting)
      (snd (callHuggingFace example_config [] (net_reply greeting)))) = Some ?c"
    by (rule last_http_constant[OF _ ne]) (simp add: net_reply_def http_response_def)
  have oke: "ok ?e" and okc: "ok ?c" by (simp_all add: ok_def)
  have sv: "string_valued (chat_completion greeting)"
    by (simp add: string_valued_def chat_completion_def first_choice_def string_or_falsy_def
        truthy_opt_def of_ascii_def)
  have se: "string_valued (JObj [])"
    by (simp add: string_valued_def first_choice_def string_or_falsy_def truthy_opt_def)
  have ex: "extract_in_order (chat_completion greeting) = Some greeting"
    by (simp add: extract_in_order_def chat_completion_def first_choice_def nonempty_string_def
        of_ascii_def greeting_def)
  have xe: "extract_in_order (JObj []) = None"
    by (simp add: extract_in_order_def first_choice_def nonempty_string_def
        element_candidate_def first_element_def)
  have tr: "trim greeting = greeting" "greeting \<noteq> []"
    by (simp_all add: trim_def greeting_def of_ascii_def is_ws_def)
  note tc = extraction_in_order [of "chat_completion greeting" example_config
      "of_ascii ''hf_token''" "net_reply greeting" "[]" ?c greeting]
  note te = extraction_in_order [of "JObj []" example_config
      "of_ascii ''hf_token''" net_empty_object "[]" ?e "[]"]
  from tc sv have "extractGeneratedText (chat_completion greeting)
      = Inr (map_option JStr (extract_in_order (chat_completion greeting)))"
    by blast
  then have 1: "extractGeneratedText (chat_completion greeting) = Inr (Some (JStr greeting))"
    by (simp add: ex)
  from tc key lc okc sv ex tr
  have 2: "fst (callHuggingFace example_config [] (net_reply greeting)) = succeeded (trim greeting)"
    by simp
  from te key le oke se xe
  have 3: "fst (callHuggingFace example_config [] net_empty_object)
       = failed (Some (JStr msg_empty_response)) api_error"
    by simp
  from sv 1 2 3 se tr show ?thesis by simp
qed

subsection \<open>C10: no insufficient balance\<close>

text \<open>
  Claim C10. Whatever the configuration, the store, the user, the message and the
  network, the result of \<^verbatim>\<open>getAIResponse\<close> never has the error type
  \<open>insufficient_balance\<close>.
\<close>

theorem never_insufficient_balance:
  "map_option errorType (fst (getAIResponse cfg store userId userMessage net))
     \<noteq> Some (Some insufficient_balance)"
proof (cases "has_key cfg")
  case False
  then show ?thesis by (simp add: getAIResponse_def)
next
  case True
  show ?thesis
  proof (cases "getSystemPrompt cfg")
    case None
    with True show ?thesis by (simp add: getAIResponse_def failed_def)
  next
    case (Some prompt)
    show ?thesis
      unfolding getAIResponse_enabled(1)[OF True Some]
      using callHuggingFace_cases[of cfg "\<lparr>role = System, content = prompt\<rparr> # history_of store userId
                @ [\<lparr>role = User, content = userMessage\<rparr>]" net]
      by (auto simp: failed_def succeeded_def)
  qed
qed

end
